theory Spec2Isabelle
  imports Complex_Main "HOL-Library.Sublist"
begin

section \<open>Enumerations and errors (types/index.ts, middleware/errorHandler)\<close>

datatype UserRole = USER | ADMIN | PHARMACY

datatype OrderStatus =
    OrderStatus_PENDING
  | OrderStatus_APPROVED
  | OrderStatus_SHIPPED
  | OrderStatus_DELIVERED
  | OrderStatus_CANCELLED

datatype PrescriptionStatus =
    PrescriptionStatus_PENDING
  | PrescriptionStatus_APPROVED
  | PrescriptionStatus_REJECTED

datatype ProductStatus = ACTIVE | INACTIVE | PENDING_APPROVAL

text \<open>What a call can throw, returned on the left of a sum: the services' own
  \<open>new AppError(message, statusCode)\<close>; TypeORM's \<open>QueryFailedError\<close>, when the database
  rejects a statement; TypeORM's \<open>EntityPropertyNotFoundError\<close> (property, entity), when
  a query names a relation the entity does not declare; JavaScript's \<open>TypeError\<close>.\<close>

datatype Thrown =
    AppError string nat
  | QueryFailedError string
  | EntityPropertyNotFoundError string string
  | TypeError string

section \<open>Entities (entities/*.ts) and the database\<close>

text \<open>
  A table is a map from the primary key (the \<open>id\<close> column, a uuid string) to the other
  columns of the row, so \<open>findOne({ where: { id } })\<close> is a lookup. Relation objects are
  not stored: they are joins over the key columns. A product row carries its
  \<open>createdAt\<close> and \<open>updatedAt\<close> columns, as readings of the database clock; for the other
  entities the two timestamp columns are left out. A \<open>decimal(10,2)\<close> column and the
  JavaScript numbers computed from it are exact rationals here (the bound of ten digits
  is not modelled); an \<open>int\<close> column holds an integer and the database rejects a value
  outside 32 bits. Fields carry a prefix because several entities share column names.
\<close>

record User =
  u_firstName :: string
  u_lastName :: string
  u_email :: string
  u_isActive :: bool

record Product =
  p_name :: string
  p_description :: string
  p_price :: rat
  p_stockQuantity :: int
  p_category :: string
  p_imageUrl :: "string option"
  p_requiresPrescription :: bool
  p_status :: ProductStatus
  p_pharmacyId :: string
  p_createdAt :: nat
  p_updatedAt :: nat

record Prescription =
  rx_userId :: string
  rx_fileName :: string
  rx_filePath :: string
  rx_originalName :: "string option"
  rx_fileSize :: int
  rx_mimeType :: string
  rx_status :: PrescriptionStatus
  rx_adminNotes :: "string option"
  rx_approvedBy :: "string option"
  rx_approvedAt :: "nat option"

record Order =
  o_userId :: string
  o_totalAmount :: rat
  o_status :: OrderStatus
  o_shippingAddress :: string
  o_trackingNumber :: "string option"
  o_prescriptionId :: "string option"
  o_assignedPharmacyId :: "string option"
  o_notes :: "string option"

text \<open>The rows of \<open>order_items\<close> are kept as a list, in insertion order; their own
  primary key is never read by the code and is left out.\<close>

record OrderItem =
  oi_orderId :: string
  oi_productId :: string
  oi_quantity :: int
  oi_unitPrice :: rat
  oi_totalPrice :: rat

record Database =
  users :: "string \<rightharpoonup> User"
  products :: "string \<rightharpoonup> Product"
  prescriptions :: "string \<rightharpoonup> Prescription"
  orders :: "string \<rightharpoonup> Order"
  orderItems :: "OrderItem list"
  clock :: nat
  validUuid :: "string \<Rightarrow> bool"

text \<open>Besides the tables, the database has its clock (\<open>CURRENT_TIMESTAMP\<close> as the
  statements of a call read it; no service sets it, so a sequence of calls runs under
  one reading) and its input check for \<open>uuid\<close> columns: \<open>validUuid\<close> tells which texts
  it accepts as a uuid. The check belongs to the database server, not to the
  repository, so it is left open. A query that compares a uuid column with a text the
  database does not accept, or writes such a text to a uuid column, fails. Ids are
  compared as texts: a request is taken to spell a uuid the way the database prints
  it.\<close>

definition uuidError :: Thrown where
  "uuidError = QueryFailedError ''invalid input syntax for type uuid''"

definition int4 :: "int \<Rightarrow> bool" where
  "int4 n = (- 2147483648 \<le> n \<and> n \<le> 2147483647)"

definition rangeError :: Thrown where
  "rangeError = QueryFailedError ''value out of range for type integer''"

definition duplicateKey :: Thrown where
  "duplicateKey = QueryFailedError ''duplicate key value violates unique constraint''"

text \<open>\<open>save(product)\<close> with a new stock. TypeORM compares the entity with the stored
  row and issues no \<open>UPDATE\<close> when no column differs; an \<open>UPDATE\<close> also sets \<open>updatedAt\<close>
  (\<open>@UpdateDateColumn\<close>) to the clock, and fails when the new stock does not fit the
  \<open>int\<close> column.\<close>

definition saveProduct :: "string \<Rightarrow> Product \<Rightarrow> int \<Rightarrow> Database \<Rightarrow> Thrown + Database" where
  "saveProduct pid product newStock db =
     (if newStock = p_stockQuantity product then Inr db
      else if int4 newStock
      then Inr (db\<lparr>products := (products db)
                  (pid \<mapsto> product\<lparr>p_stockQuantity := newStock, p_updatedAt := clock db\<rparr>)\<rparr>)
      else Inl rangeError)"

text \<open>\<open>AppDataSource.transaction(body)\<close>: the body's writes are kept when it returns and
  rolled back when it throws.\<close>

definition transaction ::
  "(Database \<Rightarrow> Thrown + ('r \<times> Database)) \<Rightarrow> Database \<Rightarrow> (Thrown + 'r) \<times> Database" where
  "transaction body db =
     (case body db of
        Inl e \<Rightarrow> (Inl e, db)
      | Inr (r, db') \<Rightarrow> (Inr r, db'))"

text \<open>JavaScript truthiness of an optional string: \<open>undefined\<close> and the empty string are
  falsy.\<close>

definition truthy :: "string option \<Rightarrow> bool" where
  "truthy x = (case x of None \<Rightarrow> False | Some s \<Rightarrow> s \<noteq> [])"

section \<open>OrderService (services/OrderService.ts)\<close>

record CartItem =
  productId :: string
  quantity :: int

record CreateOrderData =
  items :: "CartItem list"
  shippingAddress :: string
  prescriptionId :: "string option"
  orderNotes :: "string option"

record OrderSummary =
  os_id :: string
  os_totalAmount :: rat
  os_status :: OrderStatus
  os_shippingAddress :: string

text \<open>The locals of the transaction body of \<open>createOrder\<close> while the cart is walked:
  \<open>totalAmount\<close>, \<open>requiresPrescription\<close>, \<open>orderItems\<close>, and the database as the
  transactional entity manager sees it.\<close>

record CartLoop =
  totalAmount :: rat
  requiresPrescription :: bool
  pendingItems :: "OrderItem list"
  txDb :: Database

text \<open>One round of \<open>for (const item of items)\<close>. The new \<open>OrderItem\<close> has no \<open>orderId\<close>
  yet (the empty string stands for the unset field); it is set after the order is saved.\<close>

definition cartStep :: "CartItem \<Rightarrow> CartLoop \<Rightarrow> Thrown + CartLoop" where
  "cartStep item st =
     (if validUuid (txDb st) (productId item)
      then
        (case products (txDb st) (productId item) of
           None \<Rightarrow> Inl (AppError (''Product not found: '' @ productId item) 404)
         | Some product \<Rightarrow>
             if p_stockQuantity product < quantity item
             then Inl (AppError (''Insufficient stock for product: '' @ p_name product) 400)
             else
               let itemTotal = p_price product * of_int (quantity item);
                   orderItem = \<lparr>oi_orderId = [], oi_productId = productId item,
                                oi_quantity = quantity item, oi_unitPrice = p_price product,
                                oi_totalPrice = itemTotal\<rparr>
               in
                 (case saveProduct (productId item) product
                         (p_stockQuantity product - quantity item) (txDb st) of
                    Inl e \<Rightarrow> Inl e
                  | Inr db' \<Rightarrow>
                      Inr \<lparr>totalAmount = totalAmount st + itemTotal,
                           requiresPrescription =
                             (if p_requiresPrescription product then True
                              else requiresPrescription st),
                           pendingItems = pendingItems st @ [orderItem],
                           txDb = db'\<rparr>))
      else Inl uuidError)"

fun cartLoop :: "CartItem list \<Rightarrow> CartLoop \<Rightarrow> Thrown + CartLoop" where
  "cartLoop [] st = Inr st"
| "cartLoop (item # rest) st =
     (case cartStep item st of
        Inl e \<Rightarrow> Inl e
      | Inr st' \<Rightarrow> cartLoop rest st')"

text \<open>\<open>if (requiresPrescription) { ... }\<close>: the prescription must be given, and a row
  with that id, the ordering user's id and status APPROVED must exist. The lookup
  compares the \<open>id\<close> column with the request's text.\<close>

definition checkPrescription :: "string \<Rightarrow> string option \<Rightarrow> Database \<Rightarrow> Thrown option" where
  "checkPrescription userId rxId db =
     (case rxId of
        None \<Rightarrow> Some (AppError ''Prescription is required for this order'' 400)
      | Some pid \<Rightarrow>
          if pid = [] then Some (AppError ''Prescription is required for this order'' 400)
          else if validUuid db pid \<and> validUuid db userId
          then
            (case prescriptions db pid of
               None \<Rightarrow> Some (AppError ''Valid approved prescription is required'' 400)
             | Some rx \<Rightarrow>
                 if rx_userId rx = userId \<and> rx_status rx = PrescriptionStatus_APPROVED then None
                 else Some (AppError ''Valid approved prescription is required'' 400))
          else Some uuidError)"

text \<open>\<open>validate(order)\<close> of class-validator: the only constraint on \<open>Order\<close> is
  \<open>@IsPositive()\<close> on \<open>totalAmount\<close>. The message is the library's default.\<close>

definition validateOrder :: "Order \<Rightarrow> string list" where
  "validateOrder order =
     (if 0 < o_totalAmount order then [] else [''totalAmount must be a positive number''])"

fun joinWith :: "string \<Rightarrow> string list \<Rightarrow> string" where
  "joinWith sep [] = []"
| "joinWith sep [x] = x"
| "joinWith sep (x # y # ys) = x @ sep @ joinWith sep (y # ys)"

text \<open>\<open>const order = new Order(); order.userId = ...\<close>: the order as it is before it
  is saved. \<open>prescriptionId\<close> and \<open>notes\<close> are set only when truthy.\<close>

definition newOrder :: "string \<Rightarrow> CreateOrderData \<Rightarrow> rat \<Rightarrow> Order" where
  "newOrder userId orderData amount =
     \<lparr>o_userId = userId,
      o_totalAmount = amount,
      o_status = OrderStatus_PENDING,
      o_shippingAddress = shippingAddress orderData,
      o_trackingNumber = None,
      o_prescriptionId =
        (if truthy (prescriptionId orderData) then prescriptionId orderData else None),
      o_assignedPharmacyId = None,
      o_notes = (if truthy (orderNotes orderData) then orderNotes orderData else None)\<rparr>"

text \<open>\<open>save(order)\<close> under the generated key, then \<open>save(orderItem)\<close> for each pending
  item with \<open>orderItem.orderId = savedOrder.id\<close>. The inserts fail when the order's
  \<open>prescriptionId\<close> is not a uuid the database accepts, when the generated key is
  already present, or when an item's quantity does not fit the \<open>int\<close> column.\<close>

definition saveOrder :: "string \<Rightarrow> Order \<Rightarrow> OrderItem list \<Rightarrow> Database \<Rightarrow> Thrown + Database" where
  "saveOrder newId order pending db =
     (if (case o_prescriptionId order of None \<Rightarrow> True | Some t \<Rightarrow> validUuid db t)
      then
        if newId \<in> dom (orders db) then Inl duplicateKey
        else if list_all (\<lambda>oi. int4 (oi_quantity oi)) pending
        then Inr (db\<lparr>orders := (orders db)(newId \<mapsto> order),
                     orderItems := orderItems db @ map (\<lambda>oi. oi\<lparr>oi_orderId := newId\<rparr>) pending\<rparr>)
        else Inl rangeError
      else Inl uuidError)"

text \<open>The body passed to \<open>AppDataSource.transaction\<close>. The primary key of the new order
  is generated by the database; it is the argument \<open>newId\<close>.\<close>

definition createOrderTx ::
  "string \<Rightarrow> CreateOrderData \<Rightarrow> string \<Rightarrow> Database \<Rightarrow> Thrown + (OrderSummary \<times> Database)" where
  "createOrderTx userId orderData newId db =
     (case cartLoop (items orderData)
             \<lparr>totalAmount = 0, requiresPrescription = False, pendingItems = [], txDb = db\<rparr> of
        Inl e \<Rightarrow> Inl e
      | Inr st \<Rightarrow>
          (case (if requiresPrescription st
                 then checkPrescription userId (prescriptionId orderData) (txDb st)
                 else None) of
             Some e \<Rightarrow> Inl e
           | None \<Rightarrow>
               let order = newOrder userId orderData (totalAmount st)
               in
                 if validateOrder order \<noteq> []
                 then Inl (AppError (''Order validation failed: '' @ joinWith ''; '' (validateOrder order)) 400)
                 else
                   (case saveOrder newId order (pendingItems st) (txDb st) of
                      Inl e \<Rightarrow> Inl e
                    | Inr db' \<Rightarrow>
                        Inr (\<lparr>os_id = newId, os_totalAmount = o_totalAmount order,
                               os_status = o_status order,
                               os_shippingAddress = o_shippingAddress order\<rparr>,
                             db'))))"

definition createOrder ::
  "string \<Rightarrow> CreateOrderData \<Rightarrow> string \<Rightarrow> Database \<Rightarrow> (Thrown + OrderSummary) \<times> Database" where
  "createOrder userId orderData newId db =
     (if items orderData = [] then (Inl (AppError ''Order items are required'' 400), db)
      else if shippingAddress orderData = [] then (Inl (AppError ''Shipping address is required'' 400), db)
      else if validUuid db userId
      then
        (case users db userId of
           None \<Rightarrow> (Inl (AppError ''User not found'' 404), db)
         | Some user \<Rightarrow> transaction (createOrderTx userId orderData newId) db)
      else (Inl uuidError, db))"

section \<open>Relations (entities/*.ts) and getOrderById\<close>

text \<open>The relations each entity declares (\<open>@ManyToOne\<close>, \<open>@OneToMany\<close>), by property
  name. \<open>findOne\<close> resolves every path of its \<open>relations\<close> option against them before it
  builds the query, and throws at the first property an entity does not declare. The
  loaded relations are not part of a row here, so a \<open>findOne\<close> whose paths all resolve
  is the lookup alone; that is the case of every other \<open>findOne\<close> of the services below
  (lemma \<open>other_relations_resolve\<close>).\<close>

datatype Entity = E_User | E_Pharmacy | E_Product | E_Prescription | E_Order | E_OrderItem

fun entityName :: "Entity \<Rightarrow> string" where
  "entityName E_User = ''User''"
| "entityName E_Pharmacy = ''Pharmacy''"
| "entityName E_Product = ''Product''"
| "entityName E_Prescription = ''Prescription''"
| "entityName E_Order = ''Order''"
| "entityName E_OrderItem = ''OrderItem''"

fun relationsOf :: "Entity \<Rightarrow> (string \<times> Entity) list" where
  "relationsOf E_User = [(''prescriptions'', E_Prescription), (''orders'', E_Order)]"
| "relationsOf E_Pharmacy = [(''products'', E_Product), (''user'', E_User)]"
| "relationsOf E_Product = [(''pharmacy'', E_Pharmacy), (''orderItems'', E_OrderItem)]"
| "relationsOf E_Prescription = [(''user'', E_User)]"
| "relationsOf E_Order = [(''user'', E_User), (''orderItems'', E_OrderItem)]"
| "relationsOf E_OrderItem = [(''order'', E_Order), (''product'', E_Product)]"

text \<open>A dotted path such as \<open>orderItems.product.pharmacy\<close> is the list of its segments.\<close>

fun resolveRelation :: "Entity \<Rightarrow> string list \<Rightarrow> Thrown option" where
  "resolveRelation e [] = None"
| "resolveRelation e (p # ps) =
     (case map_of (relationsOf e) p of
        None \<Rightarrow> Some (EntityPropertyNotFoundError p (entityName e))
      | Some e' \<Rightarrow> resolveRelation e' ps)"

fun checkRelations :: "Entity \<Rightarrow> string list list \<Rightarrow> Thrown option" where
  "checkRelations e [] = None"
| "checkRelations e (path # paths) =
     (case resolveRelation e path of
        Some err \<Rightarrow> Some err
      | None \<Rightarrow> checkRelations e paths)"

text \<open>\<open>getOrderById(userId, orderId)\<close>: \<open>findOne({ where: { id: orderId, userId },
  relations: ['orderItems', 'orderItems.product', 'orderItems.product.pharmacy',
  'prescription', 'user'] })\<close> on \<open>Order\<close>.\<close>

definition getOrderById :: "string \<Rightarrow> string \<Rightarrow> Database \<Rightarrow> Thrown + (string \<times> Order)" where
  "getOrderById userId orderId db =
     (case checkRelations E_Order
             [[''orderItems''], [''orderItems'', ''product''],
              [''orderItems'', ''product'', ''pharmacy''], [''prescription''], [''user'']] of
        Some e \<Rightarrow> Inl e
      | None \<Rightarrow>
          if validUuid db orderId \<and> validUuid db userId
          then
            (case orders db orderId of
               None \<Rightarrow> Inl (AppError ''Order not found'' 404)
             | Some order \<Rightarrow>
                 if o_userId order = userId then Inr (orderId, order)
                 else Inl (AppError ''Order not found'' 404))
          else Inl uuidError)"

section \<open>OrderService: cancelOrder and updateOrderStatus\<close>

text \<open>The loop of \<open>cancelOrder\<close> over \<open>order.orderItems\<close>: a product that still exists
  gets the item's quantity back.\<close>

fun restoreStock :: "OrderItem list \<Rightarrow> Database \<Rightarrow> Thrown + Database" where
  "restoreStock [] db = Inr db"
| "restoreStock (item # rest) db =
     (if validUuid db (oi_productId item)
      then
        (case products db (oi_productId item) of
           None \<Rightarrow> restoreStock rest db
         | Some product \<Rightarrow>
             (case saveProduct (oi_productId item) product
                     (p_stockQuantity product + oi_quantity item) db of
                Inl e \<Rightarrow> Inl e
              | Inr db' \<Rightarrow> restoreStock rest db'))
      else Inl uuidError)"

definition itemsOfOrder :: "string \<Rightarrow> Database \<Rightarrow> OrderItem list" where
  "itemsOfOrder orderId db = filter (\<lambda>oi. oi_orderId oi = orderId) (orderItems db)"

definition cancelOrderTx :: "string \<Rightarrow> string \<Rightarrow> Database \<Rightarrow> Thrown + (unit \<times> Database)" where
  "cancelOrderTx userId orderId db =
     (if validUuid db orderId \<and> validUuid db userId
      then
        (case orders db orderId of
           None \<Rightarrow> Inl (AppError ''Order not found'' 404)
         | Some order \<Rightarrow>
             if o_userId order \<noteq> userId then Inl (AppError ''Order not found'' 404)
             else if o_status order \<noteq> OrderStatus_PENDING
             then Inl (AppError ''Only pending orders can be cancelled'' 400)
             else
               (case restoreStock (itemsOfOrder orderId db) db of
                  Inl e \<Rightarrow> Inl e
                | Inr db' \<Rightarrow>
                    Inr ((), db'\<lparr>orders := (orders db')
                                   (orderId \<mapsto> order\<lparr>o_status := OrderStatus_CANCELLED\<rparr>)\<rparr>)))
      else Inl uuidError)"

definition cancelOrder :: "string \<Rightarrow> string \<Rightarrow> Database \<Rightarrow> (Thrown + unit) \<times> Database" where
  "cancelOrder userId orderId db = transaction (cancelOrderTx userId orderId) db"

definition updateOrderStatus :: "string \<Rightarrow> OrderStatus \<Rightarrow> Database \<Rightarrow> (Thrown + unit) \<times> Database" where
  "updateOrderStatus orderId status db =
     (if validUuid db orderId
      then
        (case orders db orderId of
           None \<Rightarrow> (Inl (AppError ''Order not found'' 404), db)
         | Some order \<Rightarrow>
             (Inr (), db\<lparr>orders := (orders db)(orderId \<mapsto> order\<lparr>o_status := status\<rparr>)\<rparr>))
      else (Inl uuidError, db))"

section \<open>PaymentService.processRefund (services/PaymentService.ts)\<close>

record RefundData =
  rf_orderId :: string
  rf_reason :: string
  rf_amount :: "rat option"

record RefundResult =
  rr_success :: bool
  rr_refundId :: string
  rr_amount :: rat
  rr_message :: string

definition eligibleStatuses :: "OrderStatus list" where
  "eligibleStatuses = [OrderStatus_APPROVED, OrderStatus_SHIPPED, OrderStatus_DELIVERED]"

text \<open>\<open>amount || order.totalAmount\<close>: an absent amount and the amount 0 are both falsy.\<close>

definition refundAmountOf :: "rat option \<Rightarrow> Order \<Rightarrow> rat" where
  "refundAmountOf amount order =
     (case amount of
        None \<Rightarrow> o_totalAmount order
      | Some a \<Rightarrow> if a = 0 then o_totalAmount order else a)"

text \<open>The refund id comes from the clock and \<open>Math.random\<close>; it is the argument
  \<open>refundId\<close>.\<close>

definition processRefund ::
  "string \<Rightarrow> RefundData \<Rightarrow> string \<Rightarrow> Database \<Rightarrow> (Thrown + RefundResult) \<times> Database" where
  "processRefund userId refundData refundId db =
     (if validUuid db (rf_orderId refundData) \<and> validUuid db userId
      then
        (case orders db (rf_orderId refundData) of
           None \<Rightarrow> (Inl (AppError ''Order not found'' 404), db)
         | Some order \<Rightarrow>
             if o_userId order \<noteq> userId then (Inl (AppError ''Order not found'' 404), db)
             else if o_status order \<notin> set eligibleStatuses
             then (Inl (AppError ''Order is not eligible for refund'' 400), db)
             else
               let refundAmount = refundAmountOf (rf_amount refundData) order
               in
                 if refundAmount > o_totalAmount order
                 then (Inl (AppError ''Refund amount cannot exceed order total'' 400), db)
                 else
                   (Inr \<lparr>rr_success = True, rr_refundId = refundId, rr_amount = refundAmount,
                          rr_message = ''Refund processed successfully''\<rparr>,
                    db\<lparr>orders := (orders db)
                      (rf_orderId refundData \<mapsto> order\<lparr>o_status := OrderStatus_CANCELLED\<rparr>)\<rparr>))
      else (Inl uuidError, db))"

section \<open>Authentication middleware (middleware/auth.ts, utils/auth.ts)\<close>

record JwtPayload =
  jp_userId :: string
  jp_email :: string
  jp_role :: UserRole

record AuthUser =
  au_userId :: string
  au_email :: string
  au_role :: UserRole

record Request =
  authorization :: "string option"
  params_id :: string
  user :: "AuthUser option"

text \<open>A middleware either calls \<open>next()\<close> with the request as it left it, or ends the
  request with \<open>res.status(code).json({ success: false, message })\<close>.\<close>

datatype Outcome = Next Request | Sent nat string

definition extractTokenFromHeader :: "string option \<Rightarrow> string option" where
  "extractTokenFromHeader authHeader =
     (case authHeader of
        None \<Rightarrow> None
      | Some h \<Rightarrow> if h = [] \<or> \<not> prefix ''Bearer '' h then None else Some (drop 7 h))"

text \<open>\<open>AuthUtils.verifyToken\<close> calls the JWT library with the secret of the environment:
  it is the parameter \<open>verifyToken\<close>, \<open>None\<close> where it throws.\<close>

definition authenticate :: "(string \<Rightarrow> JwtPayload option) \<Rightarrow> Request \<Rightarrow> Outcome" where
  "authenticate verifyToken req =
     (case extractTokenFromHeader (authorization req) of
        None \<Rightarrow> Sent 401 ''Access token is required''
      | Some token \<Rightarrow>
          if token = [] then Sent 401 ''Access token is required''
          else
            (case verifyToken token of
               None \<Rightarrow> Sent 401 ''Invalid or expired token''
             | Some payload \<Rightarrow>
                 Next (req\<lparr>user := Some \<lparr>au_userId = jp_userId payload,
                                           au_email = jp_email payload,
                                           au_role = jp_role payload\<rparr>\<rparr>)))"

definition authorize :: "UserRole list \<Rightarrow> Request \<Rightarrow> Outcome" where
  "authorize roles req =
     (case user req of
        None \<Rightarrow> Sent 401 ''Authentication required''
      | Some u \<Rightarrow>
          if au_role u \<notin> set roles then Sent 403 ''Insufficient permissions''
          else Next req)"

text \<open>An Express router: the middlewares registered with \<open>router.use\<close> run in order, each
  only when the one before called \<open>next()\<close>; the route's handler runs after the last.\<close>

fun runChain :: "(Request \<Rightarrow> Outcome) list \<Rightarrow> (Request \<Rightarrow> 'r) \<Rightarrow> Request \<Rightarrow> (nat \<times> string) + 'r" where
  "runChain [] handler req = Inr (handler req)"
| "runChain (m # ms) handler req =
     (case m req of
        Sent code msg \<Rightarrow> Inl (code, msg)
      | Next req' \<Rightarrow> runChain ms handler req')"

text \<open>routes/orders.ts: the five routes, behind \<open>authenticate\<close> and
  \<open>authorize(UserRole.USER)\<close>.\<close>

datatype OrderRoute =
    POST_orders
  | GET_orders
  | GET_orders_id
  | POST_orders_id_cancel
  | GET_orders_id_track

definition ordersRouter ::
  "(string \<Rightarrow> JwtPayload option) \<Rightarrow> (OrderRoute \<Rightarrow> Request \<Rightarrow> 'r) \<Rightarrow> OrderRoute \<Rightarrow> Request \<Rightarrow>
     (nat \<times> string) + 'r" where
  "ordersRouter verifyToken controller route req =
     runChain [authenticate verifyToken, authorize [USER]] (controller route) req"

section \<open>OrderController.getOrderById (controllers/OrderController.ts)\<close>

record ApiResponse =
  ar_httpStatus :: nat
  ar_success :: bool
  ar_data :: "string \<times> Order"
  ar_message :: string

text \<open>The handler calls \<open>OrderService.getOrderById(req.params.id, req.user!.userId)\<close>;
  an error thrown by the service reaches the error handler through \<open>asyncHandler\<close>.\<close>

definition OrderController_getOrderById :: "Request \<Rightarrow> Database \<Rightarrow> Thrown + ApiResponse" where
  "OrderController_getOrderById req db =
     (case user req of
        None \<Rightarrow> Inl (TypeError ''Cannot read properties of undefined'')
      | Some u \<Rightarrow>
          (case getOrderById (params_id req) (au_userId u) db of
             Inl e \<Rightarrow> Inl e
           | Inr order \<Rightarrow>
               Inr \<lparr>ar_httpStatus = 200, ar_success = True, ar_data = order,
                    ar_message = ''Order retrieved successfully''\<rparr>))"

section \<open>PrescriptionService (services/PrescriptionService.ts)\<close>

record UploadPrescriptionData =
  up_originalName :: string
  up_fileName :: string
  up_fileSize :: int
  up_mimeType :: string
  up_filePath :: string

definition allowedMimeTypes :: "string list" where
  "allowedMimeTypes = [''image/jpeg'', ''image/png'', ''image/jpg'', ''application/pdf'']"

definition maxFileSize :: int where
  "maxFileSize = 10 * 1024 * 1024"

text \<open>\<open>validate(prescription)\<close>: \<open>@IsNotEmpty()\<close> on \<open>fileName\<close> and \<open>filePath\<close>.\<close>

definition validatePrescription :: "Prescription \<Rightarrow> string list" where
  "validatePrescription rx =
     (if rx_fileName rx = [] then [''fileName should not be empty''] else []) @
     (if rx_filePath rx = [] then [''filePath should not be empty''] else [])"

definition uploadPrescription ::
  "string \<Rightarrow> UploadPrescriptionData \<Rightarrow> string \<Rightarrow> Database \<Rightarrow>
     (Thrown + (string \<times> Prescription)) \<times> Database" where
  "uploadPrescription userId fileData newId db =
     (if validUuid db userId
      then
        (case users db userId of
           None \<Rightarrow> (Inl (AppError ''User not found'' 404), db)
         | Some u \<Rightarrow>
             if up_originalName fileData = [] \<or> up_fileName fileData = [] \<or> up_fileSize fileData = 0
                \<or> up_mimeType fileData = [] \<or> up_filePath fileData = []
             then (Inl (AppError ''All file data is required'' 400), db)
             else if up_mimeType fileData \<notin> set allowedMimeTypes
             then (Inl (AppError ''Invalid file type. Only JPEG, PNG, and PDF files are allowed'' 400), db)
             else if up_fileSize fileData > maxFileSize
             then (Inl (AppError ''File size too large. Maximum 10MB allowed'' 400), db)
             else
               let prescription =
                     \<lparr>rx_userId = userId,
                      rx_fileName = up_fileName fileData,
                      rx_filePath = up_filePath fileData,
                      rx_originalName = Some (up_originalName fileData),
                      rx_fileSize = up_fileSize fileData,
                      rx_mimeType = up_mimeType fileData,
                      rx_status = PrescriptionStatus_PENDING,
                      rx_adminNotes = None,
                      rx_approvedBy = None,
                      rx_approvedAt = None\<rparr>
               in
                 if validatePrescription prescription \<noteq> []
                 then (Inl (AppError (''Validation failed: '' @ joinWith ''; '' (validatePrescription prescription)) 400), db)
                 else if newId \<in> dom (prescriptions db)
                 then (Inl duplicateKey, db)
                 else (Inr (newId, prescription),
                       db\<lparr>prescriptions := (prescriptions db)(newId \<mapsto> prescription)\<rparr>))
      else (Inl uuidError, db))"

definition deletePrescription :: "string \<Rightarrow> string \<Rightarrow> Database \<Rightarrow> (Thrown + unit) \<times> Database" where
  "deletePrescription userId rxId db =
     (if validUuid db rxId \<and> validUuid db userId
      then
        (case prescriptions db rxId of
           None \<Rightarrow> (Inl (AppError ''Prescription not found'' 404), db)
         | Some prescription \<Rightarrow>
             if rx_userId prescription \<noteq> userId then (Inl (AppError ''Prescription not found'' 404), db)
             else if rx_status prescription \<noteq> PrescriptionStatus_PENDING
             then (Inl (AppError ''Only pending prescriptions can be deleted'' 400), db)
             else (Inr (), db\<lparr>prescriptions := (prescriptions db)(rxId := None)\<rparr>))
      else (Inl uuidError, db))"

text \<open>\<open>reviewPrescription(prescriptionId, status, adminNotes?, adminId?)\<close>;
  \<open>new Date()\<close> is the argument \<open>now\<close>. The final \<open>save\<close> writes \<open>approvedBy\<close>, a uuid
  column.\<close>

definition reviewPrescription ::
  "string \<Rightarrow> PrescriptionStatus \<Rightarrow> string option \<Rightarrow> string option \<Rightarrow> nat \<Rightarrow> Database \<Rightarrow>
     (Thrown + unit) \<times> Database" where
  "reviewPrescription rxId status adminNotes adminId now db =
     (if status \<notin> set [PrescriptionStatus_APPROVED, PrescriptionStatus_REJECTED]
      then (Inl (AppError ''Valid status (approved/rejected) is required'' 400), db)
      else if validUuid db rxId
      then
        (case prescriptions db rxId of
           None \<Rightarrow> (Inl (AppError ''Prescription not found'' 404), db)
         | Some prescription \<Rightarrow>
             if rx_status prescription \<noteq> PrescriptionStatus_PENDING
             then (Inl (AppError ''Prescription has already been reviewed'' 400), db)
             else if (case adminId of None \<Rightarrow> True | Some a \<Rightarrow> a = [] \<or> validUuid db a)
             then
               (Inr (),
                db\<lparr>prescriptions := (prescriptions db)
                  (rxId \<mapsto>
                     prescription\<lparr>rx_status := status,
                                   rx_adminNotes :=
                                     (if truthy adminNotes then adminNotes else rx_adminNotes prescription),
                                   rx_approvedBy :=
                                     (if truthy adminId then adminId else rx_approvedBy prescription),
                                   rx_approvedAt := Some now\<rparr>)\<rparr>)
             else (Inl uuidError, db))
      else (Inl uuidError, db))"

section \<open>Sequences of service calls\<close>

datatype Operation =
    CreateOrder string CreateOrderData string
  | CancelOrder string string
  | UpdateOrderStatus string OrderStatus
  | ProcessRefund string RefundData string
  | UploadPrescription string UploadPrescriptionData string
  | ReviewPrescription string PrescriptionStatus "string option" "string option" nat
  | DeletePrescription string string

fun perform :: "Operation \<Rightarrow> Database \<Rightarrow> Database" where
  "perform (CreateOrder userId orderData newId) db = snd (createOrder userId orderData newId db)"
| "perform (CancelOrder userId orderId) db = snd (cancelOrder userId orderId db)"
| "perform (UpdateOrderStatus orderId status) db = snd (updateOrderStatus orderId status db)"
| "perform (ProcessRefund userId refundData refundId) db = snd (processRefund userId refundData refundId db)"
| "perform (UploadPrescription userId fileData newId) db = snd (uploadPrescription userId fileData newId db)"
| "perform (ReviewPrescription rxId status adminNotes adminId now) db =
     snd (reviewPrescription rxId status adminNotes adminId now db)"
| "perform (DeletePrescription userId rxId) db = snd (deletePrescription userId rxId db)"

definition performAll :: "Operation list \<Rightarrow> Database \<Rightarrow> Database" where
  "performAll ops db = fold perform ops db"

section \<open>Notions the properties are stated with\<close>

text \<open>The total quantity a cart asks of one product.\<close>

definition requested :: "string \<Rightarrow> CartItem list \<Rightarrow> int" where
  "requested pid cart = sum_list (map quantity (filter (\<lambda>i. productId i = pid) cart))"

definition priceOf :: "Database \<Rightarrow> string \<Rightarrow> rat" where
  "priceOf db pid = (case products db pid of None \<Rightarrow> 0 | Some p \<Rightarrow> p_price p)"

definition stockOf :: "Database \<Rightarrow> string \<Rightarrow> int option" where
  "stockOf db pid = map_option p_stockQuantity (products db pid)"

text \<open>The line item expected for a cart item: the product's price in \<open>db\<close> as unit price,
  unit price times quantity as total price.\<close>

definition lineItem :: "Database \<Rightarrow> string \<Rightarrow> CartItem \<Rightarrow> OrderItem" where
  "lineItem db orderId item =
     \<lparr>oi_orderId = orderId, oi_productId = productId item, oi_quantity = quantity item,
      oi_unitPrice = priceOf db (productId item),
      oi_totalPrice = priceOf db (productId item) * of_int (quantity item)\<rparr>"

text \<open>The cart has an item for the product with a quantity other than 0: the items
  that make \<open>createOrder\<close> write the product's row.\<close>

definition stockWritten :: "string \<Rightarrow> CartItem list \<Rightarrow> bool" where
  "stockWritten pid cart = list_ex (\<lambda>i. productId i = pid \<and> quantity i \<noteq> 0) cart"

text \<open>A product row after stock writes that took \<open>n\<close> in all: the stock is lowered and
  \<open>updatedAt\<close> is the clock reading; nothing else differs.\<close>

definition takeStock :: "nat \<Rightarrow> int \<Rightarrow> Product \<Rightarrow> Product" where
  "takeStock clk n p = p\<lparr>p_stockQuantity := p_stockQuantity p - n, p_updatedAt := clk\<rparr>"

text \<open>The product row a cart leaves: written if the cart has a non-zero item for it.\<close>

definition rowAfter :: "nat \<Rightarrow> string \<Rightarrow> CartItem list \<Rightarrow> Product \<Rightarrow> Product" where
  "rowAfter clk pid cart p =
     (if stockWritten pid cart then takeStock clk (requested pid cart) p else p)"


text \<open>The total quantity a list of order items gives back to one product.\<close>

definition returned :: "string \<Rightarrow> OrderItem list \<Rightarrow> int" where
  "returned pid its = sum_list (map oi_quantity (filter (\<lambda>oi. oi_productId oi = pid) its))"

definition stockReturned :: "string \<Rightarrow> OrderItem list \<Rightarrow> bool" where
  "stockReturned pid its = list_ex (\<lambda>oi. oi_productId oi = pid \<and> oi_quantity oi \<noteq> 0) its"

definition rowRestored :: "nat \<Rightarrow> string \<Rightarrow> OrderItem list \<Rightarrow> Product \<Rightarrow> Product" where
  "rowRestored clk pid its p =
     (if stockReturned pid its then takeStock clk (- returned pid its) p else p)"

text \<open>The cart names a product that requires a prescription.\<close>

definition cartNeedsPrescription :: "Database \<Rightarrow> CartItem list \<Rightarrow> bool" where
  "cartNeedsPrescription db cart =
     list_ex (\<lambda>i. case products db (productId i) of None \<Rightarrow> False
                  | Some p \<Rightarrow> p_requiresPrescription p) cart"

text \<open>The request names a prescription of the ordering user whose status is APPROVED.\<close>

definition hasApprovedPrescription :: "string \<Rightarrow> string option \<Rightarrow> Database \<Rightarrow> bool" where
  "hasApprovedPrescription userId rxId db =
     (case rxId of
        None \<Rightarrow> False
      | Some pid \<Rightarrow>
          (case prescriptions db pid of
             None \<Rightarrow> False
           | Some rx \<Rightarrow> rx_userId rx = userId \<and> rx_status rx = PrescriptionStatus_APPROVED))"

text \<open>The payload of the valid bearer token a request carries, if it carries one: the
  \<open>Authorization\<close> header is \<open>Bearer \<close> followed by a non-empty token that verifies.\<close>

definition bearerPayload :: "(string \<Rightarrow> JwtPayload option) \<Rightarrow> Request \<Rightarrow> JwtPayload option" where
  "bearerPayload verifyToken req =
     (case authorization req of
        None \<Rightarrow> None
      | Some h \<Rightarrow>
          if take 7 h = ''Bearer '' \<and> 7 < length h then verifyToken (drop 7 h) else None)"

text \<open>The request as \<open>authenticate\<close> hands it on: \<open>req.user\<close> set from the payload.\<close>

definition asUser :: "JwtPayload \<Rightarrow> Request \<Rightarrow> Request" where
  "asUser payload req =
     req\<lparr>user := Some \<lparr>au_userId = jp_userId payload, au_email = jp_email payload,
                        au_role = jp_role payload\<rparr>\<rparr>"

text \<open>Every product has a stock of at least 0; every stored order item has a quantity
  of at least 0; every cart item of a \<open>CreateOrder\<close> call asks for at least 0.\<close>

definition stockNonNegative :: "Database \<Rightarrow> bool" where
  "stockNonNegative db = (\<forall>pid p. products db pid = Some p \<longrightarrow> 0 \<le> p_stockQuantity p)"

definition itemsNonNegative :: "Database \<Rightarrow> bool" where
  "itemsNonNegative db = list_all (\<lambda>oi. 0 \<le> oi_quantity oi) (orderItems db)"

fun asksNonNegative :: "Operation \<Rightarrow> bool" where
  "asksNonNegative (CreateOrder userId orderData newId) =
     list_all (\<lambda>i. 0 \<le> quantity i) (items orderData)"
| "asksNonNegative _ = True"

section \<open>A small shop, for concrete runs\<close>

definition aspirin :: Product where
  "aspirin = \<lparr>p_name = ''Aspirin'', p_description = ''tablets'', p_price = 100,
              p_stockQuantity = 10, p_category = ''pain'', p_imageUrl = None,
              p_requiresPrescription = False, p_status = ACTIVE, p_pharmacyId = ''ph1'',
              p_createdAt = 1, p_updatedAt = 3\<rparr>"

definition bandage :: Product where
  "bandage = \<lparr>p_name = ''Bandage'', p_description = ''roll'', p_price = 1,
              p_stockQuantity = 0, p_category = ''care'', p_imageUrl = None,
              p_requiresPrescription = False, p_status = ACTIVE, p_pharmacyId = ''ph1'',
              p_createdAt = 1, p_updatedAt = 3\<rparr>"

definition codeine :: Product where
  "codeine = \<lparr>p_name = ''Codeine'', p_description = ''syrup'', p_price = 10,
              p_stockQuantity = 5, p_category = ''pain'', p_imageUrl = None,
              p_requiresPrescription = True, p_status = ACTIVE, p_pharmacyId = ''ph1'',
              p_createdAt = 2, p_updatedAt = 2\<rparr>"

definition alice :: User where
  "alice = \<lparr>u_firstName = ''Alice'', u_lastName = ''A'', u_email = ''a@x.io'', u_isActive = True\<rparr>"

text \<open>The short texts below stand for the uuids of the rows and of the requests; any
  other text, \<open>abc\<close> for one, stands for a text the database does not accept as a
  uuid.\<close>

definition wellFormedIds :: "string list" where
  "wellFormedIds = [''u1'', ''ph1'', ''adm'', ''A'', ''B'', ''C'', ''Z'',
                    ''o1'', ''o2'', ''rx1'', ''rx2'', ''rx3'', ''rx9'']"

definition shop :: Database where
  "shop = \<lparr>users = [''u1'' \<mapsto> alice],
           products = [''A'' \<mapsto> aspirin, ''B'' \<mapsto> bandage, ''C'' \<mapsto> codeine],
           prescriptions = Map.empty,
           orders = Map.empty,
           orderItems = [],
           clock = 20,
           validUuid = (\<lambda>t. t \<in> set wellFormedIds)\<rparr>"

definition cart :: "(string \<times> int) list \<Rightarrow> string option \<Rightarrow> CreateOrderData" where
  "cart lines rxId =
     \<lparr>items = map (\<lambda>(pid, n). \<lparr>productId = pid, quantity = n\<rparr>) lines,
      shippingAddress = ''1 Main St'', prescriptionId = rxId, orderNotes = None\<rparr>"

text \<open>The shop after Alice ordered one Aspirin and the order was approved.\<close>

definition paidShop :: Database where
  "paidShop =
     performAll [CreateOrder ''u1'' (cart [(''A'', 1)] None) ''o1'',
                 UpdateOrderStatus ''o1'' OrderStatus_APPROVED] shop"

definition scan :: UploadPrescriptionData where
  "scan = \<lparr>up_originalName = ''rx.pdf'', up_fileName = ''f1.pdf'', up_fileSize = 2048,
           up_mimeType = ''application/pdf'', up_filePath = ''/uploads/f1.pdf''\<rparr>"

definition pendingRx :: Prescription where
  "pendingRx = \<lparr>rx_userId = ''u1'', rx_fileName = ''f1.pdf'', rx_filePath = ''/uploads/f1.pdf'',
                rx_originalName = Some ''rx.pdf'', rx_fileSize = 2048,
                rx_mimeType = ''application/pdf'', rx_status = PrescriptionStatus_PENDING,
                rx_adminNotes = None, rx_approvedBy = None, rx_approvedAt = None\<rparr>"

definition approvedRx :: Prescription where
  "approvedRx = pendingRx\<lparr>rx_status := PrescriptionStatus_APPROVED,
                          rx_approvedBy := Some ''adm'', rx_approvedAt := Some 5\<rparr>"

text \<open>The shop with a pending and an approved prescription of Alice.\<close>

definition clinic :: Database where
  "clinic = shop\<lparr>prescriptions := [''rx1'' \<mapsto> pendingRx, ''rx2'' \<mapsto> approvedRx]\<rparr>"

definition aliceToken :: "string \<Rightarrow> JwtPayload option" where
  "aliceToken t =
     (if t = ''tokA'' then Some \<lparr>jp_userId = ''u1'', jp_email = ''a@x.io'', jp_role = USER\<rparr>
      else if t = ''tokP'' then Some \<lparr>jp_userId = ''ph1'', jp_email = ''p@x.io'', jp_role = PHARMACY\<rparr>
      else None)"

definition request :: "string option \<Rightarrow> string \<Rightarrow> Request" where
  "request authHeader pathId = \<lparr>authorization = authHeader, params_id = pathId, user = None\<rparr>"

section \<open>Lemmas\<close>

lemmas shop_defs = shop_def cart_def aspirin_def bandage_def codeine_def alice_def wellFormedIds_def
lemmas svc_defs = createOrder_def createOrderTx_def transaction_def cartStep_def checkPrescription_def
  validateOrder_def truthy_def cancelOrder_def cancelOrderTx_def itemsOfOrder_def Let_def
  updateOrderStatus_def processRefund_def refundAmountOf_def eligibleStatuses_def
  newOrder_def saveOrder_def saveProduct_def int4_def uuidError_def rangeError_def duplicateKey_def

subsection \<open>Stock writes\<close>

lemma requested_Cons:
  "requested pid (item # rest) = (if productId item = pid then quantity item else 0) + requested pid rest"
  by (simp add: requested_def)

lemma stockWritten_Cons:
  "stockWritten pid (item # rest) = ((productId item = pid \<and> quantity item \<noteq> 0) \<or> stockWritten pid rest)"
  by (simp add: stockWritten_def)

lemma not_written_requested: "\<not> stockWritten pid c \<Longrightarrow> requested pid c = 0"
  by (induction c) (auto simp: requested_def stockWritten_def)

lemma rowAfter_Nil: "rowAfter clk pid [] p = p"
  by (simp add: rowAfter_def stockWritten_def)

lemma rowAfter_other: "productId item \<noteq> pid \<Longrightarrow> rowAfter clk pid (item # rest) p = rowAfter clk pid rest p"
  by (simp add: rowAfter_def requested_Cons stockWritten_Cons)

lemma rowAfter_same:
  "productId item = pid \<Longrightarrow>
   rowAfter clk pid rest (rowAfter clk pid [item] p) = rowAfter clk pid (item # rest) p"
  using not_written_requested[of pid rest]
  by (auto simp: rowAfter_def requested_Cons stockWritten_Cons takeStock_def stockWritten_def requested_def)

lemma rowAfter_stock: "p_stockQuantity (rowAfter clk pid c p) = p_stockQuantity p - requested pid c"
  using not_written_requested[of pid c] by (simp add: rowAfter_def takeStock_def)

lemma rowAfter_fields:
  "p_price (rowAfter clk pid c p) = p_price p"
  "p_requiresPrescription (rowAfter clk pid c p) = p_requiresPrescription p"
  "p_name (rowAfter clk pid c p) = p_name p"
  by (simp_all add: rowAfter_def takeStock_def)

lemma saveProduct_Inr:
  assumes "saveProduct pid product (p_stockQuantity product - q) db = Inr db'"
    and "products db pid = Some product"
  shows "db' = db\<lparr>products := (products db)
                  (pid \<mapsto> rowAfter (clock db) pid [\<lparr>productId = pid, quantity = q\<rparr>] product)\<rparr>"
proof (cases "q = 0")
  case True
  with assms have "db' = db" by (simp add: saveProduct_def)
  moreover have "(products db)(pid \<mapsto> product) = products db"
    using assms(2) by (simp add: map_upd_triv)
  ultimately show ?thesis using True by (simp add: rowAfter_def stockWritten_def)
next
  case False
  with assms show ?thesis
    by (auto simp: saveProduct_def rowAfter_def stockWritten_def requested_def takeStock_def
             split: if_splits)
qed


subsection \<open>The cart loop\<close>

lemma cartStep_Inr:
  assumes "cartStep item st = Inr st'"
  obtains product where "products (txDb st) (productId item) = Some product"
    and "validUuid (txDb st) (productId item)"
    and "quantity item \<le> p_stockQuantity product"
    and "totalAmount st' = totalAmount st + p_price product * of_int (quantity item)"
    and "requiresPrescription st' = (requiresPrescription st \<or> p_requiresPrescription product)"
    and "pendingItems st' = pendingItems st @ [lineItem (txDb st) [] item]"
    and "txDb st' = (txDb st)\<lparr>products := (products (txDb st))
           (productId item \<mapsto> rowAfter (clock (txDb st)) (productId item) [item] product)\<rparr>"
proof -
  from assms have v: "validUuid (txDb st) (productId item)"
    by (simp add: cartStep_def split: if_splits)
  with assms obtain product where p: "products (txDb st) (productId item) = Some product"
    by (cases "products (txDb st) (productId item)") (auto simp: cartStep_def)
  from assms v p have le: "quantity item \<le> p_stockQuantity product"
    by (auto simp: cartStep_def Let_def split: if_splits)
  from assms v p le obtain db' where
    s: "saveProduct (productId item) product (p_stockQuantity product - quantity item) (txDb st) = Inr db'"
    by (cases "saveProduct (productId item) product (p_stockQuantity product - quantity item) (txDb st)")
       (auto simp: cartStep_def Let_def)
  from assms v p le s have st': "st' =
      \<lparr>totalAmount = totalAmount st + p_price product * of_int (quantity item),
       requiresPrescription = (if p_requiresPrescription product then True else requiresPrescription st),
       pendingItems = pendingItems st @
         [\<lparr>oi_orderId = [], oi_productId = productId item, oi_quantity = quantity item,
           oi_unitPrice = p_price product,
           oi_totalPrice = p_price product * of_int (quantity item)\<rparr>],
       txDb = db'\<rparr>"
    by (auto simp: cartStep_def Let_def)
  have item: "\<lparr>productId = productId item, quantity = quantity item\<rparr> = item" by simp
  from saveProduct_Inr[OF s p] have d: "db' = (txDb st)\<lparr>products := (products (txDb st))
           (productId item \<mapsto> rowAfter (clock (txDb st)) (productId item) [item] product)\<rparr>"
    by (simp only: item)
  show thesis
  proof (rule that[OF p v le])
    show "totalAmount st' = totalAmount st + p_price product * of_int (quantity item)"
      by (simp add: st')
    show "requiresPrescription st' = (requiresPrescription st \<or> p_requiresPrescription product)"
      by (auto simp: st')
    show "pendingItems st' = pendingItems st @ [lineItem (txDb st) [] item]"
      using p by (simp add: st' lineItem_def priceOf_def)
    show "txDb st' = (txDb st)\<lparr>products := (products (txDb st))
           (productId item \<mapsto> rowAfter (clock (txDb st)) (productId item) [item] product)\<rparr>"
      using d by (simp add: st')
  qed
qed

lemma cartLoop_Cons_Inr:
  assumes "cartLoop (item # rest) st = Inr st'"
  obtains st1 where "cartStep item st = Inr st1" and "cartLoop rest st1 = Inr st'"
  using assms by (auto split: sum.splits)

lemma priceOf_step:
  "products db k = Some product \<Longrightarrow>
   priceOf (db\<lparr>products := (products db)(k \<mapsto> rowAfter clk k c product)\<rparr>) pid = priceOf db pid"
  by (simp add: priceOf_def rowAfter_fields)

lemma lineItem_step:
  "products db k = Some product \<Longrightarrow>
   lineItem (db\<lparr>products := (products db)(k \<mapsto> rowAfter clk k c product)\<rparr>) oid i = lineItem db oid i"
  by (simp add: lineItem_def priceOf_step)

lemma cartNeedsPrescription_step:
  "products db k = Some product \<Longrightarrow>
   cartNeedsPrescription (db\<lparr>products := (products db)(k \<mapsto> rowAfter clk k c' product)\<rparr>) c =
   cartNeedsPrescription db c"
  by (induction c) (auto simp: cartNeedsPrescription_def rowAfter_fields)

lemma cartLoop_frame:
  "cartLoop c st = Inr st' \<Longrightarrow>
   users (txDb st') = users (txDb st) \<and> prescriptions (txDb st') = prescriptions (txDb st) \<and>
   orders (txDb st') = orders (txDb st) \<and> orderItems (txDb st') = orderItems (txDb st) \<and>
   clock (txDb st') = clock (txDb st) \<and> validUuid (txDb st') = validUuid (txDb st)"
proof (induction c arbitrary: st)
  case Nil
  then show ?case by simp
next
  case (Cons item rest)
  from Cons.prems obtain st1 where s1: "cartStep item st = Inr st1" and r: "cartLoop rest st1 = Inr st'"
    by (rule cartLoop_Cons_Inr)
  from s1 obtain product where
    d: "txDb st1 = (txDb st)\<lparr>products := (products (txDb st))
           (productId item \<mapsto> rowAfter (clock (txDb st)) (productId item) [item] product)\<rparr>"
    by (rule cartStep_Inr)
  show ?case
    using Cons.IH[OF r] d by simp
qed

lemma cartLoop_total:
  "cartLoop c st = Inr st' \<Longrightarrow>
   totalAmount st' = totalAmount st + (\<Sum>i\<leftarrow>c. priceOf (txDb st) (productId i) * of_int (quantity i))"
proof (induction c arbitrary: st)
  case Nil
  then show ?case by simp
next
  case (Cons item rest)
  from Cons.prems obtain st1 where s1: "cartStep item st = Inr st1" and r: "cartLoop rest st1 = Inr st'"
    by (rule cartLoop_Cons_Inr)
  from s1 obtain product where p: "products (txDb st) (productId item) = Some product"
    and t: "totalAmount st1 = totalAmount st + p_price product * of_int (quantity item)"
    and d: "txDb st1 = (txDb st)\<lparr>products := (products (txDb st))
           (productId item \<mapsto> rowAfter (clock (txDb st)) (productId item) [item] product)\<rparr>"
    by (rule cartStep_Inr)
  have "priceOf (txDb st1) = priceOf (txDb st)"
    using p d by (auto simp: priceOf_step)
  moreover have "priceOf (txDb st) (productId item) = p_price product"
    using p by (simp add: priceOf_def)
  ultimately show ?case
    using Cons.IH[OF r] t by simp
qed

lemma cartLoop_pending:
  "cartLoop c st = Inr st' \<Longrightarrow>
   pendingItems st' = pendingItems st @ map (lineItem (txDb st) []) c"
proof (induction c arbitrary: st)
  case Nil
  then show ?case by simp
next
  case (Cons item rest)
  from Cons.prems obtain st1 where s1: "cartStep item st = Inr st1" and r: "cartLoop rest st1 = Inr st'"
    by (rule cartLoop_Cons_Inr)
  from s1 obtain product where p: "products (txDb st) (productId item) = Some product"
    and t: "pendingItems st1 = pendingItems st @ [lineItem (txDb st) [] item]"
    and d: "txDb st1 = (txDb st)\<lparr>products := (products (txDb st))
           (productId item \<mapsto> rowAfter (clock (txDb st)) (productId item) [item] product)\<rparr>"
    by (rule cartStep_Inr)
  have "lineItem (txDb st1) [] = lineItem (txDb st) []"
    using p d by (auto simp: lineItem_step)
  then show ?case
    using Cons.IH[OF r] t by simp
qed

lemma cartLoop_rx:
  "cartLoop c st = Inr st' \<Longrightarrow>
   requiresPrescription st' = (requiresPrescription st \<or> cartNeedsPrescription (txDb st) c)"
proof (induction c arbitrary: st)
  case Nil
  then show ?case by (simp add: cartNeedsPrescription_def)
next
  case (Cons item rest)
  from Cons.prems obtain st1 where s1: "cartStep item st = Inr st1" and r: "cartLoop rest st1 = Inr st'"
    by (rule cartLoop_Cons_Inr)
  from s1 obtain product where p: "products (txDb st) (productId item) = Some product"
    and t: "requiresPrescription st1 = (requiresPrescription st \<or> p_requiresPrescription product)"
    and d: "txDb st1 = (txDb st)\<lparr>products := (products (txDb st))
           (productId item \<mapsto> rowAfter (clock (txDb st)) (productId item) [item] product)\<rparr>"
    by (rule cartStep_Inr)
  have "cartNeedsPrescription (txDb st1) rest = cartNeedsPrescription (txDb st) rest"
    using p d by (simp add: cartNeedsPrescription_step)
  moreover have "cartNeedsPrescription (txDb st) (item # rest) =
      (p_requiresPrescription product \<or> cartNeedsPrescription (txDb st) rest)"
    using p by (simp add: cartNeedsPrescription_def)
  ultimately show ?case
    using Cons.IH[OF r] t by auto
qed

lemma cartLoop_products:
  "cartLoop c st = Inr st' \<Longrightarrow>
   products (txDb st') pid = map_option (rowAfter (clock (txDb st)) pid c) (products (txDb st) pid)"
proof (induction c arbitrary: st)
  case Nil
  then show ?case by (cases "products (txDb st) pid") (simp_all add: rowAfter_Nil)
next
  case (Cons item rest)
  from Cons.prems obtain st1 where s1: "cartStep item st = Inr st1" and r: "cartLoop rest st1 = Inr st'"
    by (rule cartLoop_Cons_Inr)
  from s1 obtain product where p: "products (txDb st) (productId item) = Some product"
    and d: "txDb st1 = (txDb st)\<lparr>products := (products (txDb st))
           (productId item \<mapsto> rowAfter (clock (txDb st)) (productId item) [item] product)\<rparr>"
    by (rule cartStep_Inr)
  have clk: "clock (txDb st1) = clock (txDb st)" using d by simp
  show ?case
  proof (cases "productId item = pid")
    case True
    with Cons.IH[OF r] p d clk show ?thesis
      by (simp add: rowAfter_same)
  next
    case False
    with Cons.IH[OF r] p d clk show ?thesis
      by (simp add: rowAfter_other)
  qed
qed

lemma cartLoop_append:
  "cartLoop (pre @ post) st = Inr st' \<Longrightarrow>
   \<exists>st1. cartLoop pre st = Inr st1 \<and> cartLoop post st1 = Inr st'"
  by (induction pre arbitrary: st) (auto split: sum.splits)

lemma cartLoop_stock:
  assumes "cartLoop c st = Inr st'" and "c = pre @ item # post"
  shows "\<exists>p. products (txDb st) (productId item) = Some p \<and>
             quantity item \<le> p_stockQuantity p - requested (productId item) pre"
proof -
  from assms obtain st1 where a: "cartLoop pre st = Inr st1" and b: "cartLoop (item # post) st1 = Inr st'"
    using cartLoop_append by blast
  from b obtain st2 where "cartStep item st1 = Inr st2"
    by (rule cartLoop_Cons_Inr)
  then obtain q where q: "products (txDb st1) (productId item) = Some q"
    and le: "quantity item \<le> p_stockQuantity q"
    by (rule cartStep_Inr)
  from cartLoop_products[OF a, of "productId item"] q
  have "map_option (rowAfter (clock (txDb st)) (productId item) pre) (products (txDb st) (productId item)) = Some q"
    by simp
  then obtain p where "products (txDb st) (productId item) = Some p"
    and "q = rowAfter (clock (txDb st)) (productId item) pre p"
    by auto
  with le show ?thesis by (simp add: rowAfter_stock)
qed

lemma cartLoop_exists:
  assumes "cartLoop c st = Inr st'" and "i \<in> set c"
  shows "\<exists>p. products (txDb st) (productId i) = Some p"
proof -
  from assms(2) obtain pre post where "c = pre @ i # post"
    by (auto simp: in_set_conv_decomp)
  from cartLoop_stock[OF assms(1) this] show ?thesis by blast
qed

subsection \<open>createOrder\<close>

lemma createOrder_error_keeps_db:
  "fst (createOrder userId orderData newId db) = Inl e \<Longrightarrow>
   snd (createOrder userId orderData newId db) = db"
  by (auto simp: createOrder_def transaction_def split: option.splits sum.splits if_splits prod.splits)

lemma createOrder_tx:
  assumes "fst (createOrder userId orderData newId db) = Inr s"
  shows "createOrderTx userId orderData newId db = Inr (s, snd (createOrder userId orderData newId db))"
proof -
  from assms have "createOrder userId orderData newId db =
      transaction (createOrderTx userId orderData newId) db"
    by (simp add: createOrder_def split: if_splits option.splits)
  with assms show ?thesis
    by (cases "createOrderTx userId orderData newId db") (auto simp: transaction_def)
qed

lemma saveOrder_Inr:
  assumes "saveOrder newId order pending db = Inr db'"
  shows "newId \<notin> dom (orders db) \<and>
         db' = db\<lparr>orders := (orders db)(newId \<mapsto> order),
                  orderItems := orderItems db @ map (\<lambda>oi. oi\<lparr>oi_orderId := newId\<rparr>) pending\<rparr>"
  using assms by (simp add: saveOrder_def split: if_splits)

lemma createOrderTx_Inr:
  assumes "createOrderTx userId orderData newId db = Inr (s, db')"
  shows "\<exists>st. cartLoop (items orderData)
           \<lparr>totalAmount = 0, requiresPrescription = False, pendingItems = [], txDb = db\<rparr> = Inr st \<and>
    (requiresPrescription st \<longrightarrow> checkPrescription userId (prescriptionId orderData) (txDb st) = None) \<and>
    0 < totalAmount st \<and> newId \<notin> dom (orders (txDb st)) \<and>
    s = \<lparr>os_id = newId, os_totalAmount = totalAmount st, os_status = OrderStatus_PENDING,
         os_shippingAddress = shippingAddress orderData\<rparr> \<and>
    db' = (txDb st)\<lparr>orders := (orders (txDb st))(newId \<mapsto> newOrder userId orderData (totalAmount st)),
                     orderItems := orderItems (txDb st) @
                        map (\<lambda>oi. oi\<lparr>oi_orderId := newId\<rparr>) (pendingItems st)\<rparr>"
proof (cases "cartLoop (items orderData)
           \<lparr>totalAmount = 0, requiresPrescription = False, pendingItems = [], txDb = db\<rparr>")
  case (Inl e)
  with assms show ?thesis by (simp add: createOrderTx_def)
next
  case (Inr st)
  have order: "o_totalAmount (newOrder userId orderData (totalAmount st)) = totalAmount st"
    "o_status (newOrder userId orderData (totalAmount st)) = OrderStatus_PENDING"
    "o_shippingAddress (newOrder userId orderData (totalAmount st)) = shippingAddress orderData"
    by (simp_all add: newOrder_def)
  from assms Inr have
    rx: "requiresPrescription st \<longrightarrow> checkPrescription userId (prescriptionId orderData) (txDb st) = None"
    and pos: "0 < totalAmount st"
    by (auto simp: createOrderTx_def Let_def validateOrder_def order split: option.splits if_splits)
  from assms Inr rx pos obtain d where
    sv: "saveOrder newId (newOrder userId orderData (totalAmount st)) (pendingItems st) (txDb st) = Inr d"
    by (cases "saveOrder newId (newOrder userId orderData (totalAmount st)) (pendingItems st) (txDb st)")
       (auto simp: createOrderTx_def Let_def validateOrder_def order split: option.splits if_splits)
  from assms Inr rx pos sv have "d = db'" and
    s: "s = \<lparr>os_id = newId, os_totalAmount = totalAmount st, os_status = OrderStatus_PENDING,
         os_shippingAddress = shippingAddress orderData\<rparr>"
    by (auto simp: createOrderTx_def Let_def validateOrder_def order split: option.splits if_splits)
  with saveOrder_Inr[OF sv] Inr rx pos show ?thesis by simp
qed

lemma createOrder_Inr:
  assumes "fst (createOrder userId orderData newId db) = Inr s"
  shows "\<exists>st. cartLoop (items orderData)
           \<lparr>totalAmount = 0, requiresPrescription = False, pendingItems = [], txDb = db\<rparr> = Inr st \<and>
    (requiresPrescription st \<longrightarrow> checkPrescription userId (prescriptionId orderData) (txDb st) = None) \<and>
    0 < totalAmount st \<and> newId \<notin> dom (orders (txDb st)) \<and>
    s = \<lparr>os_id = newId, os_totalAmount = totalAmount st, os_status = OrderStatus_PENDING,
         os_shippingAddress = shippingAddress orderData\<rparr> \<and>
    snd (createOrder userId orderData newId db) =
      (txDb st)\<lparr>orders := (orders (txDb st))(newId \<mapsto> newOrder userId orderData (totalAmount st)),
                orderItems := orderItems (txDb st) @
                   map (\<lambda>oi. oi\<lparr>oi_orderId := newId\<rparr>) (pendingItems st)\<rparr>"
  using createOrderTx_Inr[OF createOrder_tx[OF assms]] .


lemma checkPrescription_None:
  "checkPrescription userId rxId db = None \<Longrightarrow> hasApprovedPrescription userId rxId db"
  by (auto simp: checkPrescription_def hasApprovedPrescription_def split: option.splits if_splits)

lemma hasApprovedPrescription_frame:
  "prescriptions db' = prescriptions db \<Longrightarrow>
   hasApprovedPrescription userId rxId db' = hasApprovedPrescription userId rxId db"
  by (cases rxId) (simp_all add: hasApprovedPrescription_def)

lemma createOrder_success_facts:
  assumes "fst (createOrder userId orderData newId db) = Inr s"
  shows "\<forall>i\<in>set (items orderData). \<exists>p. products db (productId i) = Some p"
    and "\<And>pre item post. items orderData = pre @ item # post \<Longrightarrow>
           \<exists>p. products db (productId item) = Some p \<and>
               quantity item \<le> p_stockQuantity p - requested (productId item) pre"
    and "cartNeedsPrescription db (items orderData) \<Longrightarrow>
           hasApprovedPrescription userId (prescriptionId orderData) db"
    and "0 < (\<Sum>i\<leftarrow>items orderData. priceOf db (productId i) * of_int (quantity i))"
proof -
  from createOrder_Inr[OF assms] obtain st where
    loop: "cartLoop (items orderData)
           \<lparr>totalAmount = 0, requiresPrescription = False, pendingItems = [], txDb = db\<rparr> = Inr st"
    and rx: "requiresPrescription st \<longrightarrow> checkPrescription userId (prescriptionId orderData) (txDb st) = None"
    and pos: "0 < totalAmount st"
    by blast
  show "\<forall>i\<in>set (items orderData). \<exists>p. products db (productId i) = Some p"
  proof
    fix i assume "i \<in> set (items orderData)"
    from cartLoop_exists[OF loop this] show "\<exists>p. products db (productId i) = Some p" by simp
  qed
  show "\<exists>p. products db (productId item) = Some p \<and>
               quantity item \<le> p_stockQuantity p - requested (productId item) pre"
    if "items orderData = pre @ item # post" for pre item post
    using cartLoop_stock[OF loop that] by simp
  show "hasApprovedPrescription userId (prescriptionId orderData) db"
    if "cartNeedsPrescription db (items orderData)"
  proof -
    have "requiresPrescription st" using cartLoop_rx[OF loop] that by simp
    with rx have "checkPrescription userId (prescriptionId orderData) (txDb st) = None" by simp
    then have "hasApprovedPrescription userId (prescriptionId orderData) (txDb st)"
      by (rule checkPrescription_None)
    moreover have "prescriptions (txDb st) = prescriptions db"
      using cartLoop_frame[OF loop] by simp
    then have "hasApprovedPrescription userId (prescriptionId orderData) (txDb st) =
        hasApprovedPrescription userId (prescriptionId orderData) db"
      by (rule hasApprovedPrescription_frame)
    ultimately show ?thesis by simp
  qed
  show "0 < (\<Sum>i\<leftarrow>items orderData. priceOf db (productId i) * of_int (quantity i))"
    using cartLoop_total[OF loop] pos by simp
qed

lemma createOrder_not_Inr:
  assumes "\<And>s. fst (createOrder userId orderData newId db) \<noteq> Inr s"
  shows "\<exists>e. createOrder userId orderData newId db = (Inl e, db)"
proof -
  obtain e where e: "fst (createOrder userId orderData newId db) = Inl e"
    using assms by (cases "fst (createOrder userId orderData newId db)") auto
  with createOrder_error_keeps_db[OF e] show ?thesis
    by (metis prod.collapse)
qed

lemma createOrder_products:
  assumes "fst (createOrder userId orderData newId db) = Inr s"
  shows "products (snd (createOrder userId orderData newId db)) pid =
         map_option (rowAfter (clock db) pid (items orderData)) (products db pid)"
proof -
  from createOrder_Inr[OF assms] obtain st where
    loop: "cartLoop (items orderData)
           \<lparr>totalAmount = 0, requiresPrescription = False, pendingItems = [], txDb = db\<rparr> = Inr st"
    and db': "snd (createOrder userId orderData newId db) =
      (txDb st)\<lparr>orders := (orders (txDb st))(newId \<mapsto> newOrder userId orderData (totalAmount st)),
                orderItems := orderItems (txDb st) @
                   map (\<lambda>oi. oi\<lparr>oi_orderId := newId\<rparr>) (pendingItems st)\<rparr>"
    by blast
  show ?thesis
    using cartLoop_products[OF loop, of pid] by (simp add: db')
qed

subsection \<open>Tables an operation leaves alone\<close>

lemma saveProduct_frame:
  "saveProduct pid product n db = Inr db' \<Longrightarrow>
   users db' = users db \<and> prescriptions db' = prescriptions db \<and>
   orders db' = orders db \<and> orderItems db' = orderItems db \<and>
   clock db' = clock db \<and> validUuid db' = validUuid db"
  by (auto simp: saveProduct_def split: if_splits)

lemma restoreStock_frame:
  "restoreStock its db = Inr db' \<Longrightarrow>
   users db' = users db \<and> prescriptions db' = prescriptions db \<and>
   orders db' = orders db \<and> orderItems db' = orderItems db \<and>
   clock db' = clock db \<and> validUuid db' = validUuid db"
proof (induction its arbitrary: db)
  case Nil
  then show ?case by simp
next
  case (Cons item rest)
  from Cons.prems have v: "validUuid db (oi_productId item)" by (simp split: if_splits)
  show ?case
  proof (cases "products db (oi_productId item)")
    case None
    with Cons v show ?thesis by simp
  next
    case (Some product)
    with Cons.prems v obtain d where
      s: "saveProduct (oi_productId item) product (p_stockQuantity product + oi_quantity item) db = Inr d"
      and r: "restoreStock rest d = Inr db'"
      by (cases "saveProduct (oi_productId item) product (p_stockQuantity product + oi_quantity item) db")
         auto
    from Cons.IH[OF r] saveProduct_frame[OF s] show ?thesis by simp
  qed
qed

lemma createOrder_prescriptions:
  "prescriptions (snd (createOrder userId orderData newId db)) = prescriptions db"
proof (cases "fst (createOrder userId orderData newId db)")
  case (Inl e)
  then show ?thesis by (simp add: createOrder_error_keeps_db)
next
  case (Inr s)
  from createOrder_Inr[OF Inr] obtain st where
    loop: "cartLoop (items orderData)
           \<lparr>totalAmount = 0, requiresPrescription = False, pendingItems = [], txDb = db\<rparr> = Inr st"
    and db': "snd (createOrder userId orderData newId db) =
      (txDb st)\<lparr>orders := (orders (txDb st))(newId \<mapsto> newOrder userId orderData (totalAmount st)),
                orderItems := orderItems (txDb st) @
                   map (\<lambda>oi. oi\<lparr>oi_orderId := newId\<rparr>) (pendingItems st)\<rparr>"
    by blast
  show ?thesis
    using cartLoop_frame[OF loop] db' by simp
qed

lemma cancelOrder_cases:
  obtains (error) e where "cancelOrder userId orderId db = (Inl e, db)"
  | (cancelled) order db' where "orders db orderId = Some order" and "o_userId order = userId"
      and "o_status order = OrderStatus_PENDING"
      and "restoreStock (itemsOfOrder orderId db) db = Inr db'"
      and "cancelOrder userId orderId db =
             (Inr (), db'\<lparr>orders := (orders db')(orderId \<mapsto> order\<lparr>o_status := OrderStatus_CANCELLED\<rparr>)\<rparr>)"
proof (cases "cancelOrderTx userId orderId db")
  case (Inl e)
  then have "cancelOrder userId orderId db = (Inl e, db)"
    by (simp add: cancelOrder_def transaction_def)
  then show thesis by (rule error)
next
  case (Inr r)
  then obtain order where o: "orders db orderId = Some order"
    by (cases "orders db orderId") (auto simp: cancelOrderTx_def split: if_splits)
  from Inr o obtain db' where rs: "restoreStock (itemsOfOrder orderId db) db = Inr db'"
    by (cases "restoreStock (itemsOfOrder orderId db) db")
       (auto simp: cancelOrderTx_def split: if_splits)
  from Inr o rs have "o_userId order = userId" "o_status order = OrderStatus_PENDING"
    "cancelOrder userId orderId db =
       (Inr (), db'\<lparr>orders := (orders db')(orderId \<mapsto> order\<lparr>o_status := OrderStatus_CANCELLED\<rparr>)\<rparr>)"
    by (auto simp: cancelOrderTx_def cancelOrder_def transaction_def split: if_splits)
  with o rs show thesis by (intro cancelled)
qed

lemma cancelOrder_prescriptions:
  "prescriptions (snd (cancelOrder userId orderId db)) = prescriptions db"
proof (cases rule: cancelOrder_cases[of userId orderId db])
  case (error e)
  then show ?thesis by simp
next
  case (cancelled order db')
  with restoreStock_frame[OF cancelled(4)] show ?thesis by simp
qed

lemma updateOrderStatus_prescriptions:
  "prescriptions (snd (updateOrderStatus orderId status db)) = prescriptions db"
  by (cases "orders db orderId") (simp_all add: updateOrderStatus_def)

lemma processRefund_prescriptions:
  "prescriptions (snd (processRefund userId refundData refundId db)) = prescriptions db"
  by (cases "orders db (rf_orderId refundData)") (simp_all add: processRefund_def Let_def)

lemma uploadPrescription_keeps:
  "prescriptions db pid = Some rx \<Longrightarrow>
   prescriptions (snd (uploadPrescription userId fileData newId db)) pid = Some rx"
  by (cases "users db userId") (auto simp: uploadPrescription_def Let_def)

lemma reviewPrescription_keeps:
  "prescriptions db pid = Some rx \<Longrightarrow> rx_status rx \<noteq> PrescriptionStatus_PENDING \<Longrightarrow>
   prescriptions (snd (reviewPrescription rxId status adminNotes adminId now db)) pid = Some rx"
  by (cases "prescriptions db rxId") (auto simp: reviewPrescription_def)

lemma deletePrescription_keeps:
  "prescriptions db pid = Some rx \<Longrightarrow> rx_status rx \<noteq> PrescriptionStatus_PENDING \<Longrightarrow>
   prescriptions (snd (deletePrescription userId rxId db)) pid = Some rx"
  by (cases "prescriptions db rxId") (auto simp: deletePrescription_def)

lemma perform_keeps_reviewed:
  assumes "prescriptions db pid = Some rx" and "rx_status rx \<noteq> PrescriptionStatus_PENDING"
  shows "prescriptions (perform op db) pid = Some rx"
proof (cases op)
  case (CreateOrder u d n)
  then show ?thesis using assms by (simp add: createOrder_prescriptions)
next
  case (CancelOrder u o)
  then show ?thesis using assms by (simp add: cancelOrder_prescriptions)
next
  case (UpdateOrderStatus o st)
  then show ?thesis using assms by (simp add: updateOrderStatus_prescriptions)
next
  case (ProcessRefund u r i)
  then show ?thesis using assms by (simp add: processRefund_prescriptions)
next
  case (UploadPrescription u f n)
  then show ?thesis using assms by (simp add: uploadPrescription_keeps)
next
  case (ReviewPrescription i st a b n)
  then show ?thesis using assms by (simp add: reviewPrescription_keeps)
next
  case (DeletePrescription u i)
  then show ?thesis using assms by (simp add: deletePrescription_keeps)
qed

lemma performAll_keeps_reviewed:
  "prescriptions db pid = Some rx \<Longrightarrow> rx_status rx \<noteq> PrescriptionStatus_PENDING \<Longrightarrow>
   prescriptions (performAll ops db) pid = Some rx"
  unfolding performAll_def
  by (induction ops arbitrary: db) (simp_all add: perform_keeps_reviewed)

lemma uploadPrescription_Inr:
  assumes "fst (uploadPrescription userId fileData newId db) = Inr (pid, rx)"
  shows "pid = newId \<and> rx_status rx = PrescriptionStatus_PENDING \<and> rx_userId rx = userId \<and>
         prescriptions db newId = None \<and>
         snd (uploadPrescription userId fileData newId db) =
           db\<lparr>prescriptions := (prescriptions db)(newId \<mapsto> rx)\<rparr>"
  using assms
  by (cases "users db userId") (auto simp: uploadPrescription_def Let_def split: if_splits)

lemma reviewPrescription_Inr:
  assumes "fst (reviewPrescription rxId status adminNotes adminId now db) = Inr u"
  shows "(status = PrescriptionStatus_APPROVED \<or> status = PrescriptionStatus_REJECTED) \<and>
         (\<exists>rx rx'. prescriptions db rxId = Some rx \<and> rx_status rx = PrescriptionStatus_PENDING \<and>
            prescriptions (snd (reviewPrescription rxId status adminNotes adminId now db)) rxId = Some rx' \<and>
            rx_status rx' = status)"
  using assms
  by (cases "prescriptions db rxId") (auto simp: reviewPrescription_def split: if_splits)

lemma reviewPrescription_Inl:
  assumes "fst (reviewPrescription rxId status adminNotes adminId now db) = Inl e"
  shows "snd (reviewPrescription rxId status adminNotes adminId now db) = db"
  using assms
  by (cases "prescriptions db rxId") (auto simp: reviewPrescription_def split: if_splits)

lemma deletePrescription_Inr:
  assumes "fst (deletePrescription userId rxId db) = Inr u"
  shows "(\<exists>rx. prescriptions db rxId = Some rx \<and> rx_userId rx = userId \<and>
            rx_status rx = PrescriptionStatus_PENDING) \<and>
         prescriptions (snd (deletePrescription userId rxId db)) rxId = None"
  using assms
  by (cases "prescriptions db rxId") (auto simp: deletePrescription_def split: if_splits)

lemma deletePrescription_Inl:
  assumes "fst (deletePrescription userId rxId db) = Inl e"
  shows "snd (deletePrescription userId rxId db) = db"
  using assms
  by (cases "prescriptions db rxId") (auto simp: deletePrescription_def split: if_splits)

subsection \<open>cancelOrder gives the stock back\<close>

lemma returned_Cons:
  "returned pid (item # rest) = (if oi_productId item = pid then oi_quantity item else 0) + returned pid rest"
  by (simp add: returned_def)

lemma not_returned: "\<not> stockReturned pid its \<Longrightarrow> returned pid its = 0"
  by (induction its) (auto simp: returned_def stockReturned_def)

lemma rowRestored_Nil: "rowRestored clk pid [] p = p"
  by (simp add: rowRestored_def stockReturned_def)

lemma rowRestored_other:
  "oi_productId item \<noteq> pid \<Longrightarrow> rowRestored clk pid (item # rest) p = rowRestored clk pid rest p"
  by (simp add: rowRestored_def returned_Cons stockReturned_def)

lemma rowRestored_same:
  "oi_productId item = pid \<Longrightarrow>
   rowRestored clk pid rest (rowRestored clk pid [item] p) = rowRestored clk pid (item # rest) p"
  using not_returned[of pid rest]
  by (auto simp: rowRestored_def returned_def stockReturned_def takeStock_def)

lemma rowRestored_stock: "p_stockQuantity (rowRestored clk pid its p) = p_stockQuantity p + returned pid its"
  using not_returned[of pid its] by (simp add: rowRestored_def takeStock_def)

lemma saveProduct_restore:
  assumes "saveProduct (oi_productId item) product (p_stockQuantity product + oi_quantity item) db = Inr db'"
    and "products db (oi_productId item) = Some product"
  shows "db' = db\<lparr>products := (products db)
                  (oi_productId item \<mapsto> rowRestored (clock db) (oi_productId item) [item] product)\<rparr>"
proof (cases "oi_quantity item = 0")
  case True
  with assms have "db' = db" by (simp add: saveProduct_def)
  moreover have "(products db)(oi_productId item \<mapsto> product) = products db"
    using assms(2) by (simp add: map_upd_triv)
  ultimately show ?thesis using True by (simp add: rowRestored_def stockReturned_def)
next
  case False
  with assms show ?thesis
    by (auto simp: saveProduct_def rowRestored_def stockReturned_def returned_def takeStock_def
             split: if_splits)
qed

lemma restoreStock_products:
  "restoreStock its db = Inr db' \<Longrightarrow>
   products db' pid = map_option (rowRestored (clock db) pid its) (products db pid)"
proof (induction its arbitrary: db)
  case Nil
  then show ?case by (cases "products db pid") (simp_all add: rowRestored_Nil)
next
  case (Cons item rest)
  from Cons.prems have v: "validUuid db (oi_productId item)" by (simp split: if_splits)
  show ?case
  proof (cases "products db (oi_productId item)")
    case None
    with Cons.prems v have r: "restoreStock rest db = Inr db'" by simp
    show ?thesis
    proof (cases "oi_productId item = pid")
      case True
      with None Cons.IH[OF r] show ?thesis by simp
    next
      case False
      with Cons.IH[OF r] show ?thesis by (simp add: rowRestored_other)
    qed
  next
    case (Some product)
    with Cons.prems v obtain d where
      s: "saveProduct (oi_productId item) product (p_stockQuantity product + oi_quantity item) db = Inr d"
      and r: "restoreStock rest d = Inr db'"
      by (cases "saveProduct (oi_productId item) product (p_stockQuantity product + oi_quantity item) db")
         auto
    note d = saveProduct_restore[OF s Some]
    have clk: "clock d = clock db" using saveProduct_frame[OF s] by simp
    show ?thesis
    proof (cases "oi_productId item = pid")
      case True
      with Cons.IH[OF r] Some d clk show ?thesis
        by (simp add: rowRestored_same)
    next
      case False
      with Cons.IH[OF r] Some d clk show ?thesis
        by (simp add: rowRestored_other)
    qed
  qed
qed

lemma cancelOrder_restores_stock:
  assumes "fst (cancelOrder userId orderId db) = Inr u"
  shows "products (snd (cancelOrder userId orderId db)) pid =
           map_option (rowRestored (clock db) pid (itemsOfOrder orderId db)) (products db pid) \<and>
         map_option o_status (orders (snd (cancelOrder userId orderId db)) orderId) =
           Some OrderStatus_CANCELLED"
proof (cases rule: cancelOrder_cases[of userId orderId db])
  case (error e)
  with assms show ?thesis by simp
next
  case (cancelled order db')
  with restoreStock_products[OF cancelled(4), of pid] show ?thesis by simp
qed

subsection \<open>Stock levels when no quantity is negative\<close>

lemma cartStep_stockNonNegative:
  assumes "cartStep item st = Inr st'" and "stockNonNegative (txDb st)"
  shows "stockNonNegative (txDb st')"
proof -
  from assms(1) obtain product where p: "products (txDb st) (productId item) = Some product"
    and le: "quantity item \<le> p_stockQuantity product"
    and d: "txDb st' = (txDb st)\<lparr>products := (products (txDb st))
           (productId item \<mapsto> rowAfter (clock (txDb st)) (productId item) [item] product)\<rparr>"
    by (rule cartStep_Inr)
  show ?thesis
    using assms(2) le unfolding d stockNonNegative_def
    by (auto simp: rowAfter_stock requested_def)
qed

lemma cartLoop_stockNonNegative:
  "cartLoop c st = Inr st' \<Longrightarrow> stockNonNegative (txDb st) \<Longrightarrow> stockNonNegative (txDb st')"
proof (induction c arbitrary: st)
  case Nil
  then show ?case by simp
next
  case (Cons item rest)
  from Cons.prems(1) obtain st1 where s1: "cartStep item st = Inr st1" and r: "cartLoop rest st1 = Inr st'"
    by (rule cartLoop_Cons_Inr)
  from cartStep_stockNonNegative[OF s1 Cons.prems(2)] Cons.IH[OF r] show ?case by simp
qed

lemma restoreStock_stockNonNegative:
  "restoreStock its db = Inr db' \<Longrightarrow> list_all (\<lambda>oi. 0 \<le> oi_quantity oi) its \<Longrightarrow>
   stockNonNegative db \<Longrightarrow> stockNonNegative db'"
proof (induction its arbitrary: db)
  case Nil
  then show ?case by simp
next
  case (Cons item rest)
  from Cons.prems(1) have v: "validUuid db (oi_productId item)" by (simp split: if_splits)
  show ?case
  proof (cases "products db (oi_productId item)")
    case None
    with Cons v show ?thesis by simp
  next
    case (Some product)
    with Cons.prems(1) v obtain d where
      s: "saveProduct (oi_productId item) product (p_stockQuantity product + oi_quantity item) db = Inr d"
      and r: "restoreStock rest d = Inr db'"
      by (cases "saveProduct (oi_productId item) product (p_stockQuantity product + oi_quantity item) db")
         auto
    have "stockNonNegative d"
      using Cons.prems(2,3) Some unfolding saveProduct_restore[OF s Some] stockNonNegative_def
      by (auto simp: rowRestored_stock returned_def)
    with Cons.IH[OF r] Cons.prems(2) show ?thesis by simp
  qed
qed

lemma createOrder_invariant:
  assumes "stockNonNegative db" and "itemsNonNegative db"
    and "list_all (\<lambda>i. 0 \<le> quantity i) (items orderData)"
  shows "stockNonNegative (snd (createOrder userId orderData newId db)) \<and>
         itemsNonNegative (snd (createOrder userId orderData newId db))"
proof (cases "fst (createOrder userId orderData newId db)")
  case (Inl e)
  with assms show ?thesis by (simp add: createOrder_error_keeps_db)
next
  case (Inr s)
  from createOrder_Inr[OF Inr] obtain st where
    loop: "cartLoop (items orderData)
           \<lparr>totalAmount = 0, requiresPrescription = False, pendingItems = [], txDb = db\<rparr> = Inr st"
    and db': "snd (createOrder userId orderData newId db) =
      (txDb st)\<lparr>orders := (orders (txDb st))(newId \<mapsto> newOrder userId orderData (totalAmount st)),
                orderItems := orderItems (txDb st) @
                   map (\<lambda>oi. oi\<lparr>oi_orderId := newId\<rparr>) (pendingItems st)\<rparr>"
    by blast
  have "stockNonNegative (txDb st)"
    using cartLoop_stockNonNegative[OF loop] assms(1) by simp
  then have a: "stockNonNegative (snd (createOrder userId orderData newId db))"
    by (simp add: db' stockNonNegative_def)
  have pend: "pendingItems st = map (lineItem db []) (items orderData)"
    using cartLoop_pending[OF loop] by simp
  have "orderItems (txDb st) = orderItems db"
    using cartLoop_frame[OF loop] by simp
  then have b: "itemsNonNegative (snd (createOrder userId orderData newId db))"
    using assms(2,3)
    by (auto simp: db' itemsNonNegative_def pend list_all_iff lineItem_def)
  from a b show ?thesis by simp
qed

lemma cancelOrder_invariant:
  assumes "stockNonNegative db" and "itemsNonNegative db"
  shows "stockNonNegative (snd (cancelOrder userId orderId db)) \<and>
         itemsNonNegative (snd (cancelOrder userId orderId db))"
proof (cases rule: cancelOrder_cases[of userId orderId db])
  case (error e)
  with assms show ?thesis by simp
next
  case (cancelled order db')
  have its: "list_all (\<lambda>oi. 0 \<le> oi_quantity oi) (itemsOfOrder orderId db)"
    using assms(2) by (simp add: itemsNonNegative_def itemsOfOrder_def list_all_iff)
  have "stockNonNegative db'"
    using restoreStock_stockNonNegative[OF cancelled(4) its assms(1)] .
  moreover have "orderItems db' = orderItems db"
    using restoreStock_frame[OF cancelled(4)] by simp
  ultimately show ?thesis
    using assms cancelled(5) by (simp add: stockNonNegative_def itemsNonNegative_def)
qed

lemma other_operations_frame:
  "products (snd (updateOrderStatus orderId status db)) = products db \<and>
   orderItems (snd (updateOrderStatus orderId status db)) = orderItems db"
  "products (snd (processRefund userId refundData refundId db)) = products db \<and>
   orderItems (snd (processRefund userId refundData refundId db)) = orderItems db"
  "products (snd (uploadPrescription userId fileData newId db)) = products db \<and>
   orderItems (snd (uploadPrescription userId fileData newId db)) = orderItems db"
  "products (snd (reviewPrescription rxId pstatus adminNotes adminId now db)) = products db \<and>
   orderItems (snd (reviewPrescription rxId pstatus adminNotes adminId now db)) = orderItems db"
  "products (snd (deletePrescription userId rxId db)) = products db \<and>
   orderItems (snd (deletePrescription userId rxId db)) = orderItems db"
proof -
  show "products (snd (updateOrderStatus orderId status db)) = products db \<and>
   orderItems (snd (updateOrderStatus orderId status db)) = orderItems db"
    by (cases "orders db orderId") (simp_all add: updateOrderStatus_def)
  show "products (snd (processRefund userId refundData refundId db)) = products db \<and>
   orderItems (snd (processRefund userId refundData refundId db)) = orderItems db"
    by (cases "orders db (rf_orderId refundData)") (simp_all add: processRefund_def Let_def)
  show "products (snd (uploadPrescription userId fileData newId db)) = products db \<and>
   orderItems (snd (uploadPrescription userId fileData newId db)) = orderItems db"
    by (cases "users db userId") (simp_all add: uploadPrescription_def Let_def)
  show "products (snd (reviewPrescription rxId pstatus adminNotes adminId now db)) = products db \<and>
   orderItems (snd (reviewPrescription rxId pstatus adminNotes adminId now db)) = orderItems db"
    by (cases "prescriptions db rxId") (simp_all add: reviewPrescription_def)
  show "products (snd (deletePrescription userId rxId db)) = products db \<and>
   orderItems (snd (deletePrescription userId rxId db)) = orderItems db"
    by (cases "prescriptions db rxId") (simp_all add: deletePrescription_def)
qed

lemma perform_invariant:
  assumes "stockNonNegative db" and "itemsNonNegative db" and "asksNonNegative op"
  shows "stockNonNegative (perform op db) \<and> itemsNonNegative (perform op db)"
proof (cases op)
  case (CreateOrder u d n)
  with assms show ?thesis by (simp add: createOrder_invariant)
next
  case (CancelOrder u o)
  with assms show ?thesis by (simp add: cancelOrder_invariant)
next
  case (UpdateOrderStatus o st)
  with assms show ?thesis
    by (simp add: stockNonNegative_def itemsNonNegative_def other_operations_frame)
next
  case (ProcessRefund u r i)
  with assms show ?thesis
    by (simp add: stockNonNegative_def itemsNonNegative_def other_operations_frame)
next
  case (UploadPrescription u f n)
  with assms show ?thesis
    by (simp add: stockNonNegative_def itemsNonNegative_def other_operations_frame)
next
  case (ReviewPrescription i st a b n)
  with assms show ?thesis
    by (simp add: stockNonNegative_def itemsNonNegative_def other_operations_frame)
next
  case (DeletePrescription u i)
  with assms show ?thesis
    by (simp add: stockNonNegative_def itemsNonNegative_def other_operations_frame)
qed

subsection \<open>The middleware\<close>

lemma prefix_Bearer: "prefix ''Bearer '' h \<longleftrightarrow> take 7 h = ''Bearer ''"
proof
  assume "prefix ''Bearer '' h"
  then obtain t where "h = ''Bearer '' @ t" by (auto simp: prefix_def)
  then show "take 7 h = ''Bearer ''" by simp
next
  assume "take 7 h = ''Bearer ''"
  then have "h = ''Bearer '' @ drop 7 h" by (metis append_take_drop_id)
  then show "prefix ''Bearer '' h" by (metis prefixI)
qed

lemma authenticate_None:
  "bearerPayload verifyToken req = None \<Longrightarrow>
   \<exists>msg. authenticate verifyToken req = Sent 401 msg"
  by (cases "authorization req")
     (auto simp: bearerPayload_def authenticate_def extractTokenFromHeader_def prefix_Bearer
           split: if_splits option.splits)

lemma authenticate_Some:
  "bearerPayload verifyToken req = Some payload \<Longrightarrow>
   authenticate verifyToken req = Next (asUser payload req)"
  by (cases "authorization req")
     (auto simp: bearerPayload_def authenticate_def extractTokenFromHeader_def prefix_Bearer asUser_def
           split: if_splits option.splits)

lemma authorize_asUser:
  "authorize [USER] (asUser payload req) =
     (if jp_role payload = USER then Next (asUser payload req)
      else Sent 403 ''Insufficient permissions'')"
  by (simp add: authorize_def asUser_def)

subsection \<open>The prescription check\<close>








lemma cartNeedsPrescription_prescriptions:
  "cartNeedsPrescription (db\<lparr>prescriptions := t\<rparr>) c = cartNeedsPrescription db c"
  by (simp add: cartNeedsPrescription_def)






subsection \<open>Relations\<close>

lemma getOrderById_relation_missing:
  "getOrderById userId orderId db = Inl (EntityPropertyNotFoundError ''prescription'' ''Order'')"
  by (simp add: getOrderById_def)

lemma OrderController_getOrderById_relation_missing:
  "user req = Some u \<Longrightarrow>
   OrderController_getOrderById req db = Inl (EntityPropertyNotFoundError ''prescription'' ''Order'')"
  by (simp add: OrderController_getOrderById_def getOrderById_relation_missing)

lemma other_relations_resolve:
  "checkRelations E_Product [[''pharmacy'']] = None"
  "checkRelations E_Order [[''orderItems'']] = None"
  "checkRelations E_Order [[''user'']] = None"
  "checkRelations E_Prescription [[''user'']] = None"
  "checkRelations E_Order [[''orderItems''], [''orderItems'', ''product''],
     [''orderItems'', ''product'', ''pharmacy''], [''user'']] = None"
  by simp_all

section \<open>Stock levels (claims C1, C5, C6)\<close>

text \<open>
  Claim C1 (stock never negative under \<open>createOrder\<close> and \<open>cancelOrder\<close>, whatever
  quantities the caller supplies). The code does not keep it: in the shop, where every
  stock is at least 0 and there is no order yet, Alice orders 1 Aspirin and -5 Bandages
  (the stock test \<open>0 < -5\<close> is false, the total 95 is positive, the Bandage stock goes
  from 0 to 5), then orders the 5 Bandages, then cancels the first order, which adds -5:
  the Bandage stock is -5. All three calls succeed.
\<close>

theorem stock_negative_after_cancel:
  "(let order1 = cart [(''A'', 1), (''B'', - 5)] None;
        order2 = cart [(''B'', 5)] None;
        db1 = snd (createOrder ''u1'' order1 ''o1'' shop);
        db2 = snd (createOrder ''u1'' order2 ''o2'' db1);
        db3 = snd (cancelOrder ''u1'' ''o1'' db2)
    in stockOf shop ''A'' = Some 10 \<and> stockOf shop ''B'' = Some 0 \<and> stockOf shop ''C'' = Some 5 \<and>
       orderItems shop = [] \<and>
       fst (createOrder ''u1'' order1 ''o1'' shop) =
         Inr \<lparr>os_id = ''o1'', os_totalAmount = 95, os_status = OrderStatus_PENDING,
              os_shippingAddress = ''1 Main St''\<rparr> \<and>
       stockOf db1 ''B'' = Some 5 \<and>
       fst (createOrder ''u1'' order2 ''o2'' db1) =
         Inr \<lparr>os_id = ''o2'', os_totalAmount = 5, os_status = OrderStatus_PENDING,
              os_shippingAddress = ''1 Main St''\<rparr> \<and>
       stockOf db2 ''B'' = Some 0 \<and>
       fst (cancelOrder ''u1'' ''o1'' db2) = Inr () \<and>
       stockOf db3 ''B'' = Some (- 5))"
  by (simp add: shop_defs svc_defs stockOf_def)

text \<open>With no negative quantity in the stored order items and in the carts, every
  sequence of service calls keeps every stock at least 0: the negative quantity is
  what the run above needs.\<close>

lemma stock_nonnegative_for_nonnegative_quantities:
  "stockNonNegative db \<Longrightarrow> itemsNonNegative db \<Longrightarrow> list_all asksNonNegative ops \<Longrightarrow>
   stockNonNegative (performAll ops db)"
  unfolding performAll_def
proof (induction ops arbitrary: db)
  case Nil
  then show ?case by simp
next
  case (Cons op ops)
  from Cons.prems have "stockNonNegative (perform op db) \<and> itemsNonNegative (perform op db)"
    using perform_invariant by simp
  with Cons.IH Cons.prems(3) show ?case by simp
qed

text \<open>
  Claim C5 (stock decrement with frame), as amended. When \<open>createOrder\<close> succeeds, every
  product row is the old row with \<open>stockQuantity\<close> lowered by the total quantity the cart
  asks of that product and with \<open>updatedAt\<close> set to the database clock if the cart has an
  item of non-zero quantity for the product (each such item is an \<open>UPDATE\<close> of the row);
  every other field is as before; no product row appears or disappears; a product that
  no cart item names is unchanged, \<open>updatedAt\<close> included; every cart item names an
  existing product.
\<close>

theorem createOrder_stock_frame:
  assumes "fst (createOrder userId orderData newId db) = Inr s"
  shows "(\<forall>pid p. products db pid = Some p \<longrightarrow>
            products (snd (createOrder userId orderData newId db)) pid =
              Some (p\<lparr>p_stockQuantity := p_stockQuantity p - requested pid (items orderData),
                      p_updatedAt := (if stockWritten pid (items orderData) then clock db
                                      else p_updatedAt p)\<rparr>)) \<and>
         (\<forall>pid. products db pid = None \<longrightarrow>
            products (snd (createOrder userId orderData newId db)) pid = None) \<and>
         (\<forall>pid. pid \<notin> productId ` set (items orderData) \<longrightarrow>
            products (snd (createOrder userId orderData newId db)) pid = products db pid) \<and>
         (\<forall>i\<in>set (items orderData). products db (productId i) \<noteq> None)"
proof -
  note prod = createOrder_products[OF assms]
  have none: "\<not> stockWritten pid (items orderData)"
    if "pid \<notin> productId ` set (items orderData)" for pid
    using that by (auto simp: stockWritten_def list_ex_iff)
  show ?thesis
  proof (intro conjI allI impI ballI)
    fix pid p assume "products db pid = Some p"
    then show "products (snd (createOrder userId orderData newId db)) pid =
              Some (p\<lparr>p_stockQuantity := p_stockQuantity p - requested pid (items orderData),
                      p_updatedAt := (if stockWritten pid (items orderData) then clock db
                                      else p_updatedAt p)\<rparr>)"
      using prod[of pid] not_written_requested[of pid "items orderData"]
      by (simp add: rowAfter_def takeStock_def)
  next
    fix pid assume "products db pid = None"
    then show "products (snd (createOrder userId orderData newId db)) pid = None"
      using prod[of pid] by simp
  next
    fix pid assume "pid \<notin> productId ` set (items orderData)"
    then show "products (snd (createOrder userId orderData newId db)) pid = products db pid"
      using prod[of pid] none[of pid] by (cases "products db pid") (simp_all add: rowAfter_def)
  next
    fix i assume "i \<in> set (items orderData)"
    then show "products db (productId i) \<noteq> None"
      using createOrder_success_facts(1)[OF assms] by fastforce
  qed
qed

theorem createOrder_stock_frame_witness:
  "products (snd (createOrder ''u1'' (cart [(''A'', 2), (''A'', 1)] None) ''o1'' shop)) ''A'' =
     Some (aspirin\<lparr>p_stockQuantity := 7, p_updatedAt := 20\<rparr>) \<and>
   products (snd (createOrder ''u1'' (cart [(''A'', 2), (''A'', 1)] None) ''o1'' shop)) ''B'' =
     Some bandage"
proof -
  have ok: "fst (createOrder ''u1'' (cart [(''A'', 2), (''A'', 1)] None) ''o1'' shop) =
      Inr \<lparr>os_id = ''o1'', os_totalAmount = 300, os_status = OrderStatus_PENDING,
           os_shippingAddress = ''1 Main St''\<rparr>"
    by (simp add: shop_defs svc_defs)
  have a: "products shop ''A'' = Some aspirin" and b: "products shop ''B'' = Some bandage"
    by (simp_all add: shop_def)
  have notin: "''B'' \<notin> productId ` set (items (cart [(''A'', 2), (''A'', 1)] None))"
    by (simp add: cart_def)
  have "products (snd (createOrder ''u1'' (cart [(''A'', 2), (''A'', 1)] None) ''o1'' shop)) ''A'' =
      Some (aspirin\<lparr>p_stockQuantity := p_stockQuantity aspirin -
        requested ''A'' (items (cart [(''A'', 2), (''A'', 1)] None)),
        p_updatedAt := (if stockWritten ''A'' (items (cart [(''A'', 2), (''A'', 1)] None))
                        then clock shop else p_updatedAt aspirin)\<rparr>)"
    using createOrder_stock_frame[OF ok] a by blast
  moreover have "products (snd (createOrder ''u1'' (cart [(''A'', 2), (''A'', 1)] None) ''o1'' shop)) ''B'' =
      products shop ''B''"
    using createOrder_stock_frame[OF ok] notin by blast
  ultimately show ?thesis
    using b by (simp add: requested_def stockWritten_def cart_def aspirin_def shop_def)
qed

text \<open>The claim as first stated has every field of an ordered product other than
  \<open>stockQuantity\<close> unchanged. Alice orders Aspirin, last updated at time 3, when the
  clock reads 20: the order succeeds and the row's \<open>updatedAt\<close> is 20.\<close>

theorem createOrder_stock_frame_counterexample:
  "fst (createOrder ''u1'' (cart [(''A'', 2), (''A'', 1)] None) ''o1'' shop) =
     Inr \<lparr>os_id = ''o1'', os_totalAmount = 300, os_status = OrderStatus_PENDING,
          os_shippingAddress = ''1 Main St''\<rparr> \<and>
   map_option p_updatedAt (products shop ''A'') = Some 3 \<and>
   map_option p_updatedAt
     (products (snd (createOrder ''u1'' (cart [(''A'', 2), (''A'', 1)] None) ''o1'' shop)) ''A'') = Some 20 \<and>
   products (snd (createOrder ''u1'' (cart [(''A'', 2), (''A'', 1)] None) ''o1'' shop)) ''A'' \<noteq>
     Some (aspirin\<lparr>p_stockQuantity := 7\<rparr>)"
  by (simp add: shop_defs svc_defs)

text \<open>
  Claim C6 (stock restored by every transition to CANCELLED). \<open>cancelOrder\<close> gives the
  stock back; \<open>processRefund\<close> and \<open>updateOrderStatus\<close> set the status to CANCELLED and
  leave the stock as it is. In the shop after Alice's approved order of one Aspirin
  (stock 10, then 9), a refund and an admin status change both end with the order
  CANCELLED and the Aspirin stock still 9, where a cancellation of the pending order
  ends with stock 10 (in general: lemma \<open>cancelOrder_restores_stock\<close>).
\<close>

theorem cancelled_without_restock:
  "stockOf shop ''A'' = Some 10 \<and>
   stockOf paidShop ''A'' = Some 9 \<and>
   itemsOfOrder ''o1'' paidShop =
     [\<lparr>oi_orderId = ''o1'', oi_productId = ''A'', oi_quantity = 1, oi_unitPrice = 100, oi_totalPrice = 100\<rparr>] \<and>
   fst (processRefund ''u1'' \<lparr>rf_orderId = ''o1'', rf_reason = ''late'', rf_amount = None\<rparr> ''REF_1'' paidShop) =
     Inr \<lparr>rr_success = True, rr_refundId = ''REF_1'', rr_amount = 100,
          rr_message = ''Refund processed successfully''\<rparr> \<and>
   map_option o_status (orders (snd (processRefund ''u1''
       \<lparr>rf_orderId = ''o1'', rf_reason = ''late'', rf_amount = None\<rparr> ''REF_1'' paidShop)) ''o1'') =
     Some OrderStatus_CANCELLED \<and>
   stockOf (snd (processRefund ''u1''
       \<lparr>rf_orderId = ''o1'', rf_reason = ''late'', rf_amount = None\<rparr> ''REF_1'' paidShop)) ''A'' = Some 9 \<and>
   fst (updateOrderStatus ''o1'' OrderStatus_CANCELLED paidShop) = Inr () \<and>
   map_option o_status (orders (snd (updateOrderStatus ''o1'' OrderStatus_CANCELLED paidShop)) ''o1'') =
     Some OrderStatus_CANCELLED \<and>
   stockOf (snd (updateOrderStatus ''o1'' OrderStatus_CANCELLED paidShop)) ''A'' = Some 9 \<and>
   stockOf (performAll [CreateOrder ''u1'' (cart [(''A'', 1)] None) ''o1'',
                        CancelOrder ''u1'' ''o1''] shop) ''A'' = Some 10"
  by (simp add: paidShop_def performAll_def shop_defs svc_defs stockOf_def)

section \<open>Order creation (claims C2, C3, C4)\<close>

text \<open>
  Claim C2 (atomicity of order creation). Whenever \<open>createOrder\<close> ends in an error the
  database it leaves is the database it was called on: no stock is decremented and no
  order or order item is kept. Each of the listed causes does end in an error with the
  database unchanged: a cart item naming a product that does not exist; a cart item
  asking more than the stock left by the items before it; a cart with a
  prescription-required product and no approved prescription of the ordering user; a
  total that is not positive (order validation).
\<close>

theorem createOrder_atomic:
  "(\<forall>e. fst (createOrder userId orderData newId db) = Inl e \<longrightarrow>
        snd (createOrder userId orderData newId db) = db) \<and>
   ((\<exists>i\<in>set (items orderData). products db (productId i) = None) \<longrightarrow>
      (\<exists>e. createOrder userId orderData newId db = (Inl e, db))) \<and>
   ((\<exists>pre item post p. items orderData = pre @ item # post \<and>
        products db (productId item) = Some p \<and>
        p_stockQuantity p - requested (productId item) pre < quantity item) \<longrightarrow>
      (\<exists>e. createOrder userId orderData newId db = (Inl e, db))) \<and>
   (cartNeedsPrescription db (items orderData) \<and>
      \<not> hasApprovedPrescription userId (prescriptionId orderData) db \<longrightarrow>
      (\<exists>e. createOrder userId orderData newId db = (Inl e, db))) \<and>
   ((\<Sum>i\<leftarrow>items orderData. priceOf db (productId i) * of_int (quantity i)) \<le> 0 \<longrightarrow>
      (\<exists>e. createOrder userId orderData newId db = (Inl e, db)))"
proof (intro conjI allI impI)
  fix e assume "fst (createOrder userId orderData newId db) = Inl e"
  then show "snd (createOrder userId orderData newId db) = db"
    by (rule createOrder_error_keeps_db)
next
  assume "\<exists>i\<in>set (items orderData). products db (productId i) = None"
  then have "fst (createOrder userId orderData newId db) \<noteq> Inr s" for s
    using createOrder_success_facts(1)[of userId orderData newId db s] by fastforce
  then show "\<exists>e. createOrder userId orderData newId db = (Inl e, db)"
    by (rule createOrder_not_Inr)
next
  assume "\<exists>pre item post p. items orderData = pre @ item # post \<and>
        products db (productId item) = Some p \<and>
        p_stockQuantity p - requested (productId item) pre < quantity item"
  then have "fst (createOrder userId orderData newId db) \<noteq> Inr s" for s
    using createOrder_success_facts(2)[of userId orderData newId db s] by fastforce
  then show "\<exists>e. createOrder userId orderData newId db = (Inl e, db)"
    by (rule createOrder_not_Inr)
next
  assume "cartNeedsPrescription db (items orderData) \<and>
      \<not> hasApprovedPrescription userId (prescriptionId orderData) db"
  then have "fst (createOrder userId orderData newId db) \<noteq> Inr s" for s
    using createOrder_success_facts(3)[of userId orderData newId db s] by blast
  then show "\<exists>e. createOrder userId orderData newId db = (Inl e, db)"
    by (rule createOrder_not_Inr)
next
  assume "(\<Sum>i\<leftarrow>items orderData. priceOf db (productId i) * of_int (quantity i)) \<le> 0"
  then have "fst (createOrder userId orderData newId db) \<noteq> Inr s" for s
    using createOrder_success_facts(4)[of userId orderData newId db s] by auto
  then show "\<exists>e. createOrder userId orderData newId db = (Inl e, db)"
    by (rule createOrder_not_Inr)
qed

theorem createOrder_atomic_witness:
  "createOrder ''u1'' (cart [(''A'', 2), (''B'', 1)] None) ''o1'' shop =
     (Inl (AppError ''Insufficient stock for product: Bandage'' 400), shop) \<and>
   (\<exists>e. createOrder ''u1'' (cart [(''A'', 1), (''Z'', 1)] None) ''o1'' shop = (Inl e, shop)) \<and>
   (\<exists>e. createOrder ''u1'' (cart [(''A'', 1), (''A'', 10)] None) ''o1'' shop = (Inl e, shop)) \<and>
   (\<exists>e. createOrder ''u1'' (cart [(''C'', 1)] None) ''o1'' shop = (Inl e, shop)) \<and>
   (\<exists>e. createOrder ''u1'' (cart [(''A'', 0)] None) ''o1'' shop = (Inl e, shop))"
proof -
  have "fst (createOrder ''u1'' (cart [(''A'', 2), (''B'', 1)] None) ''o1'' shop) =
      Inl (AppError ''Insufficient stock for product: Bandage'' 400)"
    by (simp add: shop_defs svc_defs)
  moreover from this have "snd (createOrder ''u1'' (cart [(''A'', 2), (''B'', 1)] None) ''o1'' shop) = shop"
    using createOrder_atomic[of "''u1''" "cart [(''A'', 2), (''B'', 1)] None" "''o1''" shop] by blast
  ultimately have a: "createOrder ''u1'' (cart [(''A'', 2), (''B'', 1)] None) ''o1'' shop =
     (Inl (AppError ''Insufficient stock for product: Bandage'' 400), shop)"
    by (simp add: prod_eq_iff)
  have "\<exists>i\<in>set (items (cart [(''A'', 1), (''Z'', 1)] None)). products shop (productId i) = None"
    by (simp add: shop_defs)
  then have b: "\<exists>e. createOrder ''u1'' (cart [(''A'', 1), (''Z'', 1)] None) ''o1'' shop = (Inl e, shop)"
    using createOrder_atomic[of "''u1''" "cart [(''A'', 1), (''Z'', 1)] None" "''o1''" shop] by blast
  have "items (cart [(''A'', 1), (''A'', 10)] None) =
      [\<lparr>productId = ''A'', quantity = 1\<rparr>] @ \<lparr>productId = ''A'', quantity = 10\<rparr> # [] \<and>
    products shop (productId \<lparr>productId = ''A'', quantity = 10\<rparr>) = Some aspirin \<and>
    p_stockQuantity aspirin -
      requested (productId \<lparr>productId = ''A'', quantity = 10\<rparr>) [\<lparr>productId = ''A'', quantity = 1\<rparr>]
      < quantity \<lparr>productId = ''A'', quantity = 10\<rparr>"
    by (simp add: shop_defs requested_def)
  then have c: "\<exists>e. createOrder ''u1'' (cart [(''A'', 1), (''A'', 10)] None) ''o1'' shop = (Inl e, shop)"
    using createOrder_atomic[of "''u1''" "cart [(''A'', 1), (''A'', 10)] None" "''o1''" shop] by blast
  have "cartNeedsPrescription shop (items (cart [(''C'', 1)] None)) \<and>
      \<not> hasApprovedPrescription ''u1'' (prescriptionId (cart [(''C'', 1)] None)) shop"
    by (simp add: shop_defs cartNeedsPrescription_def hasApprovedPrescription_def)
  then have d: "\<exists>e. createOrder ''u1'' (cart [(''C'', 1)] None) ''o1'' shop = (Inl e, shop)"
    using createOrder_atomic[of "''u1''" "cart [(''C'', 1)] None" "''o1''" shop] by blast
  have "(\<Sum>i\<leftarrow>items (cart [(''A'', 0)] None). priceOf shop (productId i) * of_int (quantity i)) \<le> 0"
    by (simp add: shop_defs priceOf_def)
  then have e: "\<exists>e. createOrder ''u1'' (cart [(''A'', 0)] None) ''o1'' shop = (Inl e, shop)"
    using createOrder_atomic[of "''u1''" "cart [(''A'', 0)] None" "''o1''" shop] by blast
  from a b c d e show ?thesis by blast
qed






section \<open>The HTTP layer (claims C7, C8)\<close>

text \<open>
  Claim C7 (create, then fetch through \<open>GET /orders/:id\<close>). \<open>OrderService.getOrderById\<close>
  asks \<open>findOne\<close> for the relation \<open>prescription\<close>, which the entity \<open>Order\<close> does not
  declare (it has the column \<open>prescriptionId\<close> and the relations \<open>user\<close> and
  \<open>orderItems\<close>), so every call throws before any row is read (lemma
  \<open>getOrderById_relation_missing\<close>). Alice creates order \<open>o1\<close>, which is stored as hers; the
  handler, called by Alice with path parameter \<open>o1\<close>, ends in that error and returns no
  order, and so does the service called with \<open>(u1, o1)\<close>. The handler also passes
  \<open>(req.params.id, req.user.userId)\<close> to the service's parameters \<open>(userId, orderId)\<close>.
\<close>

theorem getOrderById_after_createOrder_throws:
  "fst (createOrder ''u1'' (cart [(''A'', 1)] None) ''o1'' shop) =
     Inr \<lparr>os_id = ''o1'', os_totalAmount = 100, os_status = OrderStatus_PENDING,
          os_shippingAddress = ''1 Main St''\<rparr> \<and>
   map_option o_userId (orders (snd (createOrder ''u1'' (cart [(''A'', 1)] None) ''o1'' shop)) ''o1'') =
     Some ''u1'' \<and>
   bearerPayload aliceToken (request (Some ''Bearer tokA'') ''o1'') =
     Some \<lparr>jp_userId = ''u1'', jp_email = ''a@x.io'', jp_role = USER\<rparr> \<and>
   OrderController_getOrderById
       (asUser \<lparr>jp_userId = ''u1'', jp_email = ''a@x.io'', jp_role = USER\<rparr>
          (request (Some ''Bearer tokA'') ''o1''))
       (snd (createOrder ''u1'' (cart [(''A'', 1)] None) ''o1'' shop)) =
     Inl (EntityPropertyNotFoundError ''prescription'' ''Order'') \<and>
   getOrderById ''u1'' ''o1'' (snd (createOrder ''u1'' (cart [(''A'', 1)] None) ''o1'' shop)) =
     Inl (EntityPropertyNotFoundError ''prescription'' ''Order'')"
  by (simp add: shop_defs svc_defs getOrderById_def OrderController_getOrderById_def
        bearerPayload_def aliceToken_def request_def asUser_def)

text \<open>
  Claim C8 (authentication gate on the order routes). On every route of the orders
  router: a request without a valid bearer token is answered 401, whatever the
  controller is; a request whose token verifies with a role other than USER is answered
  403; and whenever the controller's result is the router's result, the request carried
  a valid bearer token with role USER, \<open>authenticate\<close> and then \<open>authorize(USER)\<close> both
  called \<open>next()\<close>, and the controller ran on the request with \<open>req.user\<close> set from the
  token. The controller is any function of the route and the request (a state
  transformer on the database included): an answer \<open>Inl\<close> does not apply it.
\<close>

theorem ordersRouter_gate:
  "(bearerPayload verifyToken req = None \<longrightarrow>
      (\<exists>msg. ordersRouter verifyToken controller route req = Inl (401, msg))) \<and>
   (\<forall>payload. bearerPayload verifyToken req = Some payload \<and> jp_role payload \<noteq> USER \<longrightarrow>
      ordersRouter verifyToken controller route req = Inl (403, ''Insufficient permissions'')) \<and>
   (\<forall>r. ordersRouter verifyToken controller route req = Inr r \<longrightarrow>
      (\<exists>payload. bearerPayload verifyToken req = Some payload \<and> jp_role payload = USER \<and>
         authenticate verifyToken req = Next (asUser payload req) \<and>
         authorize [USER] (asUser payload req) = Next (asUser payload req) \<and>
         r = controller route (asUser payload req)))"
proof (intro conjI allI impI)
  assume "bearerPayload verifyToken req = None"
  from authenticate_None[OF this]
  show "\<exists>msg. ordersRouter verifyToken controller route req = Inl (401, msg)"
    by (auto simp: ordersRouter_def)
next
  fix payload assume "bearerPayload verifyToken req = Some payload \<and> jp_role payload \<noteq> USER"
  then show "ordersRouter verifyToken controller route req = Inl (403, ''Insufficient permissions'')"
    by (simp add: ordersRouter_def authenticate_Some authorize_asUser)
next
  fix r assume ok: "ordersRouter verifyToken controller route req = Inr r"
  show "\<exists>payload. bearerPayload verifyToken req = Some payload \<and> jp_role payload = USER \<and>
         authenticate verifyToken req = Next (asUser payload req) \<and>
         authorize [USER] (asUser payload req) = Next (asUser payload req) \<and>
         r = controller route (asUser payload req)"
  proof (cases "bearerPayload verifyToken req")
    case None
    from authenticate_None[OF this] ok show ?thesis
      by (auto simp: ordersRouter_def)
  next
    case (Some payload)
    with ok show ?thesis
      by (auto simp: ordersRouter_def authenticate_Some authorize_asUser split: if_splits)
  qed
qed

theorem ordersRouter_gate_witness:
  "(\<exists>msg. ordersRouter aliceToken (\<lambda>route req. map_option au_userId (user req)) GET_orders_id
       (request None ''o1'') = Inl (401, msg)) \<and>
   ordersRouter aliceToken (\<lambda>route req. map_option au_userId (user req)) GET_orders_id
       (request (Some ''Bearer tokP'') ''o1'') = Inl (403, ''Insufficient permissions'') \<and>
   bearerPayload aliceToken (request (Some ''Bearer tokA'') ''o1'') =
     Some \<lparr>jp_userId = ''u1'', jp_email = ''a@x.io'', jp_role = USER\<rparr>"
proof -
  have none: "bearerPayload aliceToken (request None ''o1'') = None"
    by (simp add: bearerPayload_def request_def)
  have a: "\<exists>msg. ordersRouter aliceToken (\<lambda>route req. map_option au_userId (user req)) GET_orders_id
       (request None ''o1'') = Inl (401, msg)"
    using ordersRouter_gate[of aliceToken "request None ''o1''"
        "\<lambda>route req. map_option au_userId (user req)" GET_orders_id] none
    by blast
  have ph: "bearerPayload aliceToken (request (Some ''Bearer tokP'') ''o1'') =
      Some \<lparr>jp_userId = ''ph1'', jp_email = ''p@x.io'', jp_role = PHARMACY\<rparr> \<and>
      jp_role \<lparr>jp_userId = ''ph1'', jp_email = ''p@x.io'', jp_role = PHARMACY\<rparr> \<noteq> USER"
    by (simp add: bearerPayload_def request_def aliceToken_def)
  have b: "ordersRouter aliceToken (\<lambda>route req. map_option au_userId (user req)) GET_orders_id
       (request (Some ''Bearer tokP'') ''o1'') = Inl (403, ''Insufficient permissions'')"
    using ordersRouter_gate[of aliceToken "request (Some ''Bearer tokP'') ''o1''"
        "\<lambda>route req. map_option au_userId (user req)" GET_orders_id] ph
    by blast
  have run: "ordersRouter aliceToken (\<lambda>route req. map_option au_userId (user req)) GET_orders_id
       (request (Some ''Bearer tokA'') ''o1'') = Inr (Some ''u1'')"
    by (simp add: ordersRouter_def authenticate_def authorize_def extractTokenFromHeader_def
          aliceToken_def request_def)
  then obtain payload where
    p: "bearerPayload aliceToken (request (Some ''Bearer tokA'') ''o1'') = Some payload"
    using ordersRouter_gate[of aliceToken "request (Some ''Bearer tokA'') ''o1''"
        "\<lambda>route req. map_option au_userId (user req)" GET_orders_id]
    by blast
  then have c: "bearerPayload aliceToken (request (Some ''Bearer tokA'') ''o1'') =
     Some \<lparr>jp_userId = ''u1'', jp_email = ''a@x.io'', jp_role = USER\<rparr>"
    by (simp add: bearerPayload_def request_def aliceToken_def)
  from a b c show ?thesis by blast
qed

section \<open>Prescription review (claim C9)\<close>

text \<open>
  Claim C9 (prescription review state machine). A successful \<open>uploadPrescription\<close>
  stores the new prescription with status PENDING. A successful \<open>reviewPrescription\<close>
  had a target status APPROVED or REJECTED and a prescription whose status was PENDING,
  and leaves it with the target status; a failed one leaves the database unchanged.
  A successful \<open>deletePrescription\<close> removed a prescription of the caller whose status
  was PENDING; a failed one leaves the database unchanged. Hence a prescription whose
  status is not PENDING is still there, unchanged, after any sequence of service calls
  (order, payment and prescription services alike).
\<close>

theorem prescription_review_state_machine:
  "(\<forall>pid rx. fst (uploadPrescription userId fileData newId db) = Inr (pid, rx) \<longrightarrow>
      rx_status rx = PrescriptionStatus_PENDING \<and>
      prescriptions (snd (uploadPrescription userId fileData newId db)) pid = Some rx) \<and>
   (\<forall>u. fst (reviewPrescription rxId status adminNotes adminId now db) = Inr u \<longrightarrow>
      (status = PrescriptionStatus_APPROVED \<or> status = PrescriptionStatus_REJECTED) \<and>
      (\<exists>rx rx'. prescriptions db rxId = Some rx \<and> rx_status rx = PrescriptionStatus_PENDING \<and>
         prescriptions (snd (reviewPrescription rxId status adminNotes adminId now db)) rxId = Some rx' \<and>
         rx_status rx' = status)) \<and>
   (\<forall>e. fst (reviewPrescription rxId status adminNotes adminId now db) = Inl e \<longrightarrow>
      snd (reviewPrescription rxId status adminNotes adminId now db) = db) \<and>
   (\<forall>u. fst (deletePrescription ownerId delId db) = Inr u \<longrightarrow>
      (\<exists>rx. prescriptions db delId = Some rx \<and> rx_userId rx = ownerId \<and>
         rx_status rx = PrescriptionStatus_PENDING) \<and>
      prescriptions (snd (deletePrescription ownerId delId db)) delId = None) \<and>
   (\<forall>e. fst (deletePrescription ownerId delId db) = Inl e \<longrightarrow>
      snd (deletePrescription ownerId delId db) = db) \<and>
   (\<forall>pid rx ops. prescriptions db pid = Some rx \<and> rx_status rx \<noteq> PrescriptionStatus_PENDING \<longrightarrow>
      prescriptions (performAll ops db) pid = Some rx)"
proof (intro conjI allI impI)
  fix pid rx assume up: "fst (uploadPrescription userId fileData newId db) = Inr (pid, rx)"
  from uploadPrescription_Inr[OF up] show "rx_status rx = PrescriptionStatus_PENDING" by simp
  from uploadPrescription_Inr[OF up]
  show "prescriptions (snd (uploadPrescription userId fileData newId db)) pid = Some rx" by simp
next
  fix u assume rv: "fst (reviewPrescription rxId status adminNotes adminId now db) = Inr u"
  from reviewPrescription_Inr[OF rv]
  show "status = PrescriptionStatus_APPROVED \<or> status = PrescriptionStatus_REJECTED" by simp
  from reviewPrescription_Inr[OF rv]
  show "\<exists>rx rx'. prescriptions db rxId = Some rx \<and> rx_status rx = PrescriptionStatus_PENDING \<and>
         prescriptions (snd (reviewPrescription rxId status adminNotes adminId now db)) rxId = Some rx' \<and>
         rx_status rx' = status" by simp
next
  fix e assume "fst (reviewPrescription rxId status adminNotes adminId now db) = Inl e"
  then show "snd (reviewPrescription rxId status adminNotes adminId now db) = db"
    by (rule reviewPrescription_Inl)
next
  fix u assume dl: "fst (deletePrescription ownerId delId db) = Inr u"
  from deletePrescription_Inr[OF dl]
  show "\<exists>rx. prescriptions db delId = Some rx \<and> rx_userId rx = ownerId \<and>
         rx_status rx = PrescriptionStatus_PENDING" by simp
  from deletePrescription_Inr[OF dl]
  show "prescriptions (snd (deletePrescription ownerId delId db)) delId = None" by simp
next
  fix e assume "fst (deletePrescription ownerId delId db) = Inl e"
  then show "snd (deletePrescription ownerId delId db) = db"
    by (rule deletePrescription_Inl)
next
  fix pid rx ops
  assume "prescriptions db pid = Some rx \<and> rx_status rx \<noteq> PrescriptionStatus_PENDING"
  then show "prescriptions (performAll ops db) pid = Some rx"
    by (simp add: performAll_keeps_reviewed)
qed

theorem prescription_review_state_machine_witness:
  "prescriptions (snd (uploadPrescription ''u1'' scan ''rx3'' clinic)) ''rx3'' = Some pendingRx \<and>
   map_option rx_status
     (prescriptions (snd (reviewPrescription ''rx1'' PrescriptionStatus_REJECTED None None 7 clinic)) ''rx1'') =
     Some PrescriptionStatus_REJECTED \<and>
   prescriptions (snd (deletePrescription ''u1'' ''rx1'' clinic)) ''rx1'' = None \<and>
   snd (reviewPrescription ''rx2'' PrescriptionStatus_REJECTED None None 9 clinic) = clinic \<and>
   snd (deletePrescription ''u1'' ''rx2'' clinic) = clinic \<and>
   prescriptions
     (performAll [ReviewPrescription ''rx2'' PrescriptionStatus_REJECTED None None 9,
                  DeletePrescription ''u1'' ''rx2'',
                  UploadPrescription ''u1'' scan ''rx2''] clinic) ''rx2'' = Some approvedRx"
proof -
  note good = prescription_review_state_machine[of "''u1''" scan "''rx3''" clinic "''rx1''"
      PrescriptionStatus_REJECTED None None 7 "''u1''" "''rx1''"]
  note bad = prescription_review_state_machine[of "''u1''" scan "''rx3''" clinic "''rx2''"
      PrescriptionStatus_REJECTED None None 9 "''u1''" "''rx2''"]
  have up: "fst (uploadPrescription ''u1'' scan ''rx3'' clinic) = Inr (''rx3'', pendingRx)"
    by (simp add: uploadPrescription_def validatePrescription_def allowedMimeTypes_def
          maxFileSize_def clinic_def shop_defs scan_def pendingRx_def Let_def)
  have a: "prescriptions (snd (uploadPrescription ''u1'' scan ''rx3'' clinic)) ''rx3'' = Some pendingRx"
    using good up by blast
  have rv: "fst (reviewPrescription ''rx1'' PrescriptionStatus_REJECTED None None 7 clinic) = Inr ()"
    by (simp add: reviewPrescription_def clinic_def shop_defs pendingRx_def)
  have "\<exists>rx rx'. prescriptions clinic ''rx1'' = Some rx \<and> rx_status rx = PrescriptionStatus_PENDING \<and>
      prescriptions (snd (reviewPrescription ''rx1'' PrescriptionStatus_REJECTED None None 7 clinic)) ''rx1''
        = Some rx' \<and> rx_status rx' = PrescriptionStatus_REJECTED"
    using good rv by blast
  then have b: "map_option rx_status
     (prescriptions (snd (reviewPrescription ''rx1'' PrescriptionStatus_REJECTED None None 7 clinic)) ''rx1'') =
     Some PrescriptionStatus_REJECTED"
    by auto
  have dl: "fst (deletePrescription ''u1'' ''rx1'' clinic) = Inr ()"
    by (simp add: deletePrescription_def clinic_def shop_defs pendingRx_def)
  have c: "prescriptions (snd (deletePrescription ''u1'' ''rx1'' clinic)) ''rx1'' = None"
    using good dl by blast
  have rv2: "fst (reviewPrescription ''rx2'' PrescriptionStatus_REJECTED None None 9 clinic) =
      Inl (AppError ''Prescription has already been reviewed'' 400)"
    by (simp add: reviewPrescription_def clinic_def shop_defs pendingRx_def approvedRx_def)
  have d: "snd (reviewPrescription ''rx2'' PrescriptionStatus_REJECTED None None 9 clinic) = clinic"
    using bad rv2 by blast
  have dl2: "fst (deletePrescription ''u1'' ''rx2'' clinic) =
      Inl (AppError ''Only pending prescriptions can be deleted'' 400)"
    by (simp add: deletePrescription_def clinic_def shop_defs pendingRx_def approvedRx_def)
  have e: "snd (deletePrescription ''u1'' ''rx2'' clinic) = clinic"
    using bad dl2 by blast
  have rx2: "prescriptions clinic ''rx2'' = Some approvedRx \<and>
      rx_status approvedRx \<noteq> PrescriptionStatus_PENDING"
    by (simp add: clinic_def approvedRx_def)
  have f: "prescriptions
     (performAll [ReviewPrescription ''rx2'' PrescriptionStatus_REJECTED None None 9,
                  DeletePrescription ''u1'' ''rx2'',
                  UploadPrescription ''u1'' scan ''rx2''] clinic) ''rx2'' = Some approvedRx"
    using bad rx2 by blast
  from a b c d e f show ?thesis by blast
qed

section \<open>Refunds (claim C10)\<close>

text \<open>
  Claim C10 (refund eligibility and bound). When \<open>processRefund\<close> succeeds, the order
  exists, belongs to the requesting user and has status APPROVED, SHIPPED or DELIVERED;
  the refunded amount is the caller's amount (the order's \<open>totalAmount\<close> when the caller
  gave none, or gave 0, which JavaScript's \<open>||\<close> treats as absent) and is at most the
  order's \<open>totalAmount\<close>; and the order is stored with status CANCELLED. Without such an
  order the call ends in an error; every error leaves the database unchanged.
\<close>

theorem processRefund_eligibility:
  "(\<forall>r. fst (processRefund userId refundData refundId db) = Inr r \<longrightarrow>
      (\<exists>order. orders db (rf_orderId refundData) = Some order \<and>
         o_userId order = userId \<and>
         (o_status order = OrderStatus_APPROVED \<or> o_status order = OrderStatus_SHIPPED \<or>
          o_status order = OrderStatus_DELIVERED) \<and>
         rr_amount r = (case rf_amount refundData of None \<Rightarrow> o_totalAmount order
                        | Some a \<Rightarrow> if a = 0 then o_totalAmount order else a) \<and>
         rr_amount r \<le> o_totalAmount order \<and>
         orders (snd (processRefund userId refundData refundId db)) (rf_orderId refundData) =
           Some (order\<lparr>o_status := OrderStatus_CANCELLED\<rparr>))) \<and>
   (\<not> (\<exists>order. orders db (rf_orderId refundData) = Some order \<and>
         o_userId order = userId \<and>
         (o_status order = OrderStatus_APPROVED \<or> o_status order = OrderStatus_SHIPPED \<or>
          o_status order = OrderStatus_DELIVERED)) \<longrightarrow>
      (\<exists>e. processRefund userId refundData refundId db = (Inl e, db))) \<and>
   (\<forall>e. fst (processRefund userId refundData refundId db) = Inl e \<longrightarrow>
      snd (processRefund userId refundData refundId db) = db)"
proof (intro conjI allI impI)
  fix r assume "fst (processRefund userId refundData refundId db) = Inr r"
  then show "\<exists>order. orders db (rf_orderId refundData) = Some order \<and>
         o_userId order = userId \<and>
         (o_status order = OrderStatus_APPROVED \<or> o_status order = OrderStatus_SHIPPED \<or>
          o_status order = OrderStatus_DELIVERED) \<and>
         rr_amount r = (case rf_amount refundData of None \<Rightarrow> o_totalAmount order
                        | Some a \<Rightarrow> if a = 0 then o_totalAmount order else a) \<and>
         rr_amount r \<le> o_totalAmount order \<and>
         orders (snd (processRefund userId refundData refundId db)) (rf_orderId refundData) =
           Some (order\<lparr>o_status := OrderStatus_CANCELLED\<rparr>)"
    by (cases "orders db (rf_orderId refundData)")
       (auto simp: processRefund_def Let_def eligibleStatuses_def refundAmountOf_def
             split: if_splits)
next
  assume "\<not> (\<exists>order. orders db (rf_orderId refundData) = Some order \<and>
         o_userId order = userId \<and>
         (o_status order = OrderStatus_APPROVED \<or> o_status order = OrderStatus_SHIPPED \<or>
          o_status order = OrderStatus_DELIVERED))"
  then show "\<exists>e. processRefund userId refundData refundId db = (Inl e, db)"
    by (cases "orders db (rf_orderId refundData)")
       (auto simp: processRefund_def Let_def eligibleStatuses_def)
next
  fix e assume "fst (processRefund userId refundData refundId db) = Inl e"
  then show "snd (processRefund userId refundData refundId db) = db"
    by (cases "orders db (rf_orderId refundData)")
       (auto simp: processRefund_def Let_def split: if_splits)
qed

theorem processRefund_eligibility_witness:
  "fst (processRefund ''u1'' \<lparr>rf_orderId = ''o1'', rf_reason = ''late'', rf_amount = Some 40\<rparr> ''REF_1'' paidShop) =
     Inr \<lparr>rr_success = True, rr_refundId = ''REF_1'', rr_amount = 40,
          rr_message = ''Refund processed successfully''\<rparr> \<and>
   map_option o_status (orders (snd (processRefund ''u1''
       \<lparr>rf_orderId = ''o1'', rf_reason = ''late'', rf_amount = Some 40\<rparr> ''REF_1'' paidShop)) ''o1'') =
     Some OrderStatus_CANCELLED \<and>
   (\<exists>e. processRefund ''u1'' \<lparr>rf_orderId = ''o1'', rf_reason = ''late'', rf_amount = None\<rparr> ''REF_2'' shop =
     (Inl e, shop)) \<and>
   snd (processRefund ''u1'' \<lparr>rf_orderId = ''o1'', rf_reason = ''late'', rf_amount = Some 500\<rparr> ''REF_3'' paidShop) =
     paidShop"
proof -
  have over: "fst (processRefund ''u1'' \<lparr>rf_orderId = ''o1'', rf_reason = ''late'', rf_amount = Some 500\<rparr>
      ''REF_3'' paidShop) = Inl (AppError ''Refund amount cannot exceed order total'' 400)"
    by (simp add: paidShop_def performAll_def shop_defs svc_defs)
  have same: "snd (processRefund ''u1'' \<lparr>rf_orderId = ''o1'', rf_reason = ''late'', rf_amount = Some 500\<rparr>
      ''REF_3'' paidShop) = paidShop"
    using processRefund_eligibility[of "''u1''"
        "\<lparr>rf_orderId = ''o1'', rf_reason = ''late'', rf_amount = Some 500\<rparr>" "''REF_3''" paidShop] over
    by blast
  have ok: "fst (processRefund ''u1'' \<lparr>rf_orderId = ''o1'', rf_reason = ''late'', rf_amount = Some 40\<rparr>
      ''REF_1'' paidShop) =
     Inr \<lparr>rr_success = True, rr_refundId = ''REF_1'', rr_amount = 40,
          rr_message = ''Refund processed successfully''\<rparr>"
    by (simp add: paidShop_def performAll_def shop_defs svc_defs)
  have "\<exists>order. orders (snd (processRefund ''u1''
       \<lparr>rf_orderId = ''o1'', rf_reason = ''late'', rf_amount = Some 40\<rparr> ''REF_1'' paidShop)) ''o1'' =
       Some (order\<lparr>o_status := OrderStatus_CANCELLED\<rparr>)"
    using processRefund_eligibility[of "''u1''"
        "\<lparr>rf_orderId = ''o1'', rf_reason = ''late'', rf_amount = Some 40\<rparr>" "''REF_1''" paidShop] ok
    by auto
  then have st: "map_option o_status (orders (snd (processRefund ''u1''
       \<lparr>rf_orderId = ''o1'', rf_reason = ''late'', rf_amount = Some 40\<rparr> ''REF_1'' paidShop)) ''o1'') =
     Some OrderStatus_CANCELLED"
    by auto
  have none: "\<not> (\<exists>order. orders shop
        (rf_orderId \<lparr>rf_orderId = ''o1'', rf_reason = ''late'', rf_amount = None\<rparr>) = Some order \<and>
      o_userId order = ''u1'' \<and>
      (o_status order = OrderStatus_APPROVED \<or> o_status order = OrderStatus_SHIPPED \<or>
       o_status order = OrderStatus_DELIVERED))"
    by (simp add: shop_def)
  have err: "\<exists>e. processRefund ''u1'' \<lparr>rf_orderId = ''o1'', rf_reason = ''late'', rf_amount = None\<rparr>
      ''REF_2'' shop = (Inl e, shop)"
    using processRefund_eligibility[of "''u1''"
        "\<lparr>rf_orderId = ''o1'', rf_reason = ''late'', rf_amount = None\<rparr>" "''REF_2''" shop] none
    by blast
  from ok st err same show ?thesis by blast
qed

end
